theory Spec2Isabelle
  imports Complex_Main
begin

section \<open>sen2like: SMAC atmospheric correction and product packaging\<close>

text \<open>
  A shallow embedding of \<^verbatim>\<open>s2l_processes/S2L_Atmcor.py\<close> and
  \<^verbatim>\<open>s2l_processes/S2L_Packager.py\<close>.

  Conventions of the embedding:
  \<^item> Python floats and numpy float arrays are idealised as \<open>real\<close> numbers; a pixel
    grid is a list of rows.
  \<^item> Python exceptions are values of type \<open>error\<close>; a function that mutates shared
    objects takes the run state and returns the outcome together with the new state,
    also when it raises.
  \<^item> numpy arrays live in an explicit store (address to grid), so that "the same array"
    and "an equal array" are different statements.
  \<^item> Collaborators whose code is outside the two modules (the CAMS reader, the SMAC
    inversion, \<open>numpy.polyfit\<close>, the file system, text-to-number conversions of the
    Python runtime) are fields of an \<open>environment\<close> record: every theorem holds for any
    choice of them. Log messages are not modelled, except where building the message
    can raise.
\<close>

subsection \<open>Python values and errors\<close>

datatype error = IndexError | TypeError | ValueError

type_synonym grid = "real list list"

text \<open>\<open>xs[i]\<close> for a non-negative index: out of range raises.\<close>

definition py_index :: "'a list \<Rightarrow> nat \<Rightarrow> error + 'a" where
  "py_index xs i = (if i < length xs then Inr (xs ! i) else Inl IndexError)"

subsection \<open>The run-wide configuration store\<close>

datatype cfg_value = CfgStr string | CfgInt int | CfgFloat real

type_synonym config_store = "string \<rightharpoonup> cfg_value"

text \<open>
  Modelled from the spec: the run-wide configuration store \<^verbatim>\<open>core.S2L_config.config\<close>
  (a "global mutable shared configuration object (get/set)"), whose class is not part of
  the two modules. It is a key-value store: \<open>get\<close> of a key that was never set yields
  Python's \<open>None\<close> (or the default given), \<open>set\<close> overwrites the key.
\<close>

definition config_get :: "config_store \<Rightarrow> string \<Rightarrow> cfg_value option" where
  "config_get cfg opt = cfg opt"

definition config_get_default :: "config_store \<Rightarrow> string \<Rightarrow> cfg_value \<Rightarrow> cfg_value" where
  "config_get_default cfg opt d = (case cfg opt of None \<Rightarrow> d | Some v \<Rightarrow> v)"

definition config_set :: "config_store \<Rightarrow> string \<Rightarrow> cfg_value \<Rightarrow> config_store" where
  "config_set cfg opt v = cfg(opt \<mapsto> v)"

subsection \<open>Products, metadata and the environment\<close>

record datetime =
  dt_year :: nat
  dt_month :: nat
  dt_day :: nat

record image_file =
  xRes :: real
  filepath :: string
  dirpath :: string
  filename :: string

record mtl_metadata =
  observation_date :: string
  scene_center_time :: string
  sun_zenith_angle :: real
  sun_azimuth_angle :: real
  mgrs :: string
  mtl_file_name :: string
  tile_metadata :: "string option"

record product =
  mtl :: mtl_metadata
  product_name :: string
  acqdate :: datetime
  sensor :: string
  sensor_name :: string
  angles_file :: string
  mask_filename :: string
  image30m :: "(string \<times> image_file) list"
  get_smac_filename :: "string \<Rightarrow> string option"

record cams_configuration =
  cams_default :: "cfg_value option"
  cams_hourly :: "cfg_value option"
  cams_daily :: "cfg_value option"
  cams_climatology :: "cfg_value option"

record ecmwf_product =
  is_valid :: bool
  ecmwf_handle :: nat

record atmo_parameter =
  getTotalColumnWaterVapor :: real
  getTotalOzone :: real
  getAirPressure :: real
  aod550 :: real

record environment =
  strptime :: "string \<Rightarrow> datetime option"
  ECMWF_Product :: "cams_configuration \<Rightarrow> datetime \<Rightarrow> ecmwf_product"
  atmo_project :: "ecmwf_product \<Rightarrow> real \<Rightarrow> real \<Rightarrow> atmo_parameter"
  compute_model :: "real list \<Rightarrow> real list \<Rightarrow> real \<times> real \<times> real"
  smac_directory :: string
  path_exists :: "string \<Rightarrow> bool"
  smac_coeff :: "string \<Rightarrow> real list"
  smac_inv :: "real \<Rightarrow> real \<Rightarrow> real \<Rightarrow> real \<Rightarrow> real \<Rightarrow> real \<Rightarrow> real \<Rightarrow> real \<Rightarrow> real
                 \<Rightarrow> real list \<Rightarrow> real"
  polyfit :: "real list \<Rightarrow> real list \<Rightarrow> nat \<Rightarrow> real list \<times> real list"
  getboolean :: "config_store \<Rightarrow> string \<Rightarrow> bool"
  int_of_text :: "string \<Rightarrow> int option"
  float_text :: "real \<Rightarrow> string"

text \<open>
  What the code asks of the file system and of the raster library is recorded in order:
  writing an image (path, digital-count mode), resampling (source, resolution,
  destination), copying a file, creating directories, saving the configuration, and
  requesting a quicklook (bands, path, quality, offset). These calls are taken to
  return normally.
\<close>

datatype effect =
    WriteImage string bool
  | Resample string int string
  | CopyFile string string
  | MakeDirs string
  | SaveConfig string
  | Quicklook "string list" string cfg_value int

record run_state =
  config :: config_store
  arrays :: "nat \<Rightarrow> grid"
  next_array :: nat
  qi :: "string \<rightharpoonup> cfg_value option"
  images :: "(string \<times> string) list"
  effects :: "effect list"

text \<open>A fresh numpy array: the next unused address of the store.\<close>

definition new_array :: "run_state \<Rightarrow> grid \<Rightarrow> nat \<times> run_state" where
  "new_array s g =
     (next_array s, s\<lparr>arrays := (arrays s)(next_array s := g), next_array := Suc (next_array s)\<rparr>)"

subsection \<open>\<^verbatim>\<open>os.path.join\<close>\<close>

fun path_join2 :: "string \<Rightarrow> string \<Rightarrow> string" where
  "path_join2 path b =
     (if b \<noteq> [] \<and> hd b = CHR ''/'' then b
      else if path = [] \<or> last path = CHR ''/'' then path @ b
      else path @ ''/'' @ b)"

definition path_join :: "string \<Rightarrow> string list \<Rightarrow> string" where
  "path_join a p = foldl path_join2 a p"

subsection \<open>S2L\_Atmcor: coefficient lookup\<close>

definition get_cams_configuration :: "config_store \<Rightarrow> cams_configuration" where
  "get_cams_configuration cfg =
     \<lparr>cams_default = config_get cfg ''cams_dir'',
      cams_hourly = config_get cfg ''cams_hourly_dir'',
      cams_daily = config_get cfg ''cams_daily_dir'',
      cams_climatology = config_get cfg ''cams_climatology_dir''\<rparr>"

definition get_smac_coefficients :: "environment \<Rightarrow> product \<Rightarrow> string \<Rightarrow> string option" where
  "get_smac_coefficients env product band =
     (case get_smac_filename product band of
        None \<Rightarrow> None
      | Some fname \<Rightarrow>
          (let smac_file = path_join (smac_directory env) [''COEFS'', fname]
           in if path_exists env smac_file then Some smac_file else None))"

subsection \<open>S2L\_Atmcor: the scene's atmospheric state\<close>

record atmospheric_state =
  uH2O :: real
  uO3 :: real
  pressure :: real
  taup550 :: real

record corner_acc =
  lon_sc :: real
  lat_sc :: real
  v_ctwv :: "real list"
  v_gtc03 :: "real list"
  v_msl :: "real list"
  v_aot :: "real list"

text \<open>
  The loop over the four corners (\<open>for index in range(4)\<close>). The four sample vectors
  start as \<open>np.empty\<close>; every entry is overwritten before it is read, so the initial
  content (zeros here) cannot be observed.
\<close>

fun corners_loop ::
  "environment \<Rightarrow> ecmwf_product \<Rightarrow> real list \<Rightarrow> nat list \<Rightarrow> corner_acc \<Rightarrow> error + corner_acc"
where
  "corners_loop env ecmwf_data extent [] acc = Inr acc"
| "corners_loop env ecmwf_data extent (index # rest) acc =
     (case py_index extent (2 * index) of
        Inl e \<Rightarrow> Inl e
      | Inr lon \<Rightarrow>
          (case py_index extent (2 * index + 1) of
             Inl e \<Rightarrow> Inl e
           | Inr lat \<Rightarrow>
               (let atmo = atmo_project env ecmwf_data lat lon
                in corners_loop env ecmwf_data extent rest
                     \<lparr>lon_sc = lon_sc acc + lon * 0.25,
                      lat_sc = lat_sc acc + lat * 0.25,
                      v_ctwv = (v_ctwv acc)[index := getTotalColumnWaterVapor atmo],
                      v_gtc03 = (v_gtc03 acc)[index := getTotalOzone atmo],
                      v_msl = (v_msl acc)[index := getAirPressure atmo],
                      v_aot = (v_aot acc)[index := aod550 atmo]\<rparr>)))"

definition estimate :: "environment \<Rightarrow> real list \<Rightarrow> real list \<Rightarrow> real \<Rightarrow> real \<Rightarrow> real" where
  "estimate env extent v lon lat =
     (case compute_model env extent v of (c1, c2, c3) \<Rightarrow> c1 * lon + c2 * lat + c3)"

definition resolve_atmosphere ::
  "environment \<Rightarrow> ecmwf_product \<Rightarrow> real list \<Rightarrow> error + atmospheric_state"
where
  "resolve_atmosphere env ecmwf_data extent =
     (if is_valid ecmwf_data then
        (case corners_loop env ecmwf_data extent [0..<4]
                \<lparr>lon_sc = 0, lat_sc = 0, v_ctwv = replicate 4 0, v_gtc03 = replicate 4 0,
                 v_msl = replicate 4 0, v_aot = replicate 4 0\<rparr> of
           Inl e \<Rightarrow> Inl e
         | Inr acc \<Rightarrow>
             Inr \<lparr>uH2O = estimate env extent (v_ctwv acc) (lon_sc acc) (lat_sc acc),
                  uO3 = estimate env extent (v_gtc03 acc) (lon_sc acc) (lat_sc acc),
                  pressure = estimate env extent (v_msl acc) (lon_sc acc) (lat_sc acc),
                  taup550 = estimate env extent (v_aot acc) (lon_sc acc) (lat_sc acc)\<rparr>)
      else Inr \<lparr>uH2O = 2.0, uO3 = 0.331, pressure = 1013.095, taup550 = 0.2\<rparr>)"

definition record_atmosphere :: "config_store \<Rightarrow> atmospheric_state \<Rightarrow> config_store" where
  "record_atmosphere cfg atm =
     config_set
       (config_set
          (config_set (config_set cfg ''uH2O'' (CfgFloat (uH2O atm))) ''uO3'' (CfgFloat (uO3 atm)))
          ''pressure'' (CfgFloat (pressure atm)))
       ''taup550'' (CfgFloat (taup550 atm))"

subsection \<open>S2L\_Atmcor: the correction curve and its application\<close>

record correction_curve =
  r_toa :: "real list"
  r_surf_SMAC :: "real list"
  poly_coefs :: "real list \<times> real list"

text \<open>\<open>for i in range(101): r_surf_SMAC[i] = smac.smac_inv(r_toa[i], ...)\<close>\<close>

fun smac_loop :: "(real \<Rightarrow> real) \<Rightarrow> real list \<Rightarrow> nat list \<Rightarrow> real list \<Rightarrow> real list" where
  "smac_loop f toa [] surf = surf"
| "smac_loop f toa (i # rest) surf = smac_loop f toa rest (surf[i := f (toa ! i)])"

definition build_curve ::
  "environment \<Rightarrow> mtl_metadata \<Rightarrow> atmospheric_state \<Rightarrow> string \<Rightarrow> correction_curve"
where
  "build_curve env m atm coef_file =
     (let theta_s = sun_zenith_angle m;
          phi_s = sun_azimuth_angle m;
          theta_v = 0;
          phi_v = 0;
          toa = map (\<lambda>i. real i / 100) [0..<101];
          surf0 = replicate 101 0;
          smac_coefs = smac_coeff env coef_file;
          surf = smac_loop
                   (\<lambda>r. smac_inv env r theta_s phi_s theta_v phi_v (pressure atm) (taup550 atm)
                           (uO3 atm) (uH2O atm) smac_coefs)
                   toa [0..<101] surf0
      in \<lparr>r_toa = toa, r_surf_SMAC = surf, poly_coefs = polyfit env toa surf 2\<rparr>)"

text \<open>
  \<open>surf_ref = p[2] + p[1] * Bands_toa + p[0] * Bands_toa ** 2\<close>, then
  \<open>surf_ref[Bands_toa <= 0] = 0\<close>.
\<close>

definition poly_eval :: "real \<Rightarrow> real \<Rightarrow> real \<Rightarrow> grid \<Rightarrow> grid" where
  "poly_eval c0 c1 c2 Bands_toa = map (map (\<lambda>t. c0 + c1 * t + c2 * t ^ 2)) Bands_toa"

definition mask_assign :: "grid \<Rightarrow> grid \<Rightarrow> grid" where
  "mask_assign Bands_toa surf_ref =
     map (\<lambda>(trow, srow). map (\<lambda>(t, v). if t \<le> 0 then 0 else v) (zip trow srow))
       (zip Bands_toa surf_ref)"

definition apply_curve ::
  "run_state \<Rightarrow> real list \<times> real list \<Rightarrow> nat \<Rightarrow> (error + nat) \<times> run_state"
where
  "apply_curve s pc array_in =
     (case new_array s (arrays s array_in) of
        (Bands_toa, s1) \<Rightarrow>
          (case py_index (fst pc) 2 of
             Inl e \<Rightarrow> (Inl e, s1)
           | Inr c0 \<Rightarrow>
               (case py_index (fst pc) 1 of
                  Inl e \<Rightarrow> (Inl e, s1)
                | Inr c1 \<Rightarrow>
                    (case py_index (fst pc) 0 of
                       Inl e \<Rightarrow> (Inl e, s1)
                     | Inr c2 \<Rightarrow>
                         (case new_array s1 (poly_eval c0 c1 c2 (arrays s1 Bands_toa)) of
                            (surf_ref, s2) \<Rightarrow>
                              (let s3 = s2\<lparr>arrays := (arrays s2)
                                          (surf_ref := mask_assign (arrays s2 Bands_toa)
                                                         (arrays s2 surf_ref))\<rparr>
                               in case py_index (snd pc) 0 of
                                    Inl e \<Rightarrow> (Inl e, s3)
                                  | Inr residual \<Rightarrow> (Inr surf_ref, s3)))))))"

subsection \<open>S2L\_Atmcor: \<^verbatim>\<open>smac_correction\<close>\<close>

definition smac_correction ::
  "environment \<Rightarrow> run_state \<Rightarrow> product \<Rightarrow> nat \<Rightarrow> real list \<Rightarrow> string
     \<Rightarrow> (error + nat) \<times> run_state"
where
  "smac_correction env s product array_in extent band =
     (case strptime env (observation_date (mtl product) @ ''T'' @ scene_center_time (mtl product)) of
        None \<Rightarrow> (Inl ValueError, s)
      | Some obs_datetime \<Rightarrow>
          (let ecmwf_data = ECMWF_Product env (get_cams_configuration (config s)) obs_datetime
           in case resolve_atmosphere env ecmwf_data extent of
                Inl e \<Rightarrow> (Inl e, s)
              | Inr atm \<Rightarrow>
                  (let s1 = s\<lparr>config := record_atmosphere (config s) atm\<rparr>
                   in case get_smac_coefficients env product band of
                        None \<Rightarrow> (Inr array_in, s1)
                      | Some coef_file \<Rightarrow>
                          apply_curve s1
                            (poly_coefs (build_curve env (mtl product) atm coef_file))
                            array_in)))"

subsection \<open>S2L\_Atmcor: \<^verbatim>\<open>postprocess\<close> (quality indicators)\<close>


subsection \<open>Text formatting of the Python runtime\<close>

definition digit_char :: "nat \<Rightarrow> char" where
  "digit_char n = ''0123456789'' ! n"

fun str_nat :: "nat \<Rightarrow> string" where
  "str_nat n = (if n < 10 then [digit_char n] else str_nat (n div 10) @ [digit_char (n mod 10)])"

declare str_nat.simps [simp del]

text \<open>\<open>str(i)\<close> for an integer.\<close>

definition str_int :: "int \<Rightarrow> string" where
  "str_int i = (if i < 0 then ''-'' @ str_nat (nat (- i)) else str_nat (nat i))"

text \<open>\<open>int(x)\<close> for a float: truncation towards zero.\<close>

definition int_of_float :: "real \<Rightarrow> int" where
  "int_of_float r = (if 0 \<le> r then \<lfloor>r\<rfloor> else \<lceil>r\<rceil>)"

text \<open>Right alignment with fill character \<open>0\<close> (format specification \<open>0>n\<close>).\<close>

definition zero_fill :: "nat \<Rightarrow> string \<Rightarrow> string" where
  "zero_fill n t = replicate (n - length t) CHR ''0'' @ t"

text \<open>\<open>'{:0>3}'.format(v)\<close>; formatting \<open>None\<close> with a format specification raises.\<close>

definition format_0gt3 :: "environment \<Rightarrow> cfg_value option \<Rightarrow> error + string" where
  "format_0gt3 env v =
     (case v of
        None \<Rightarrow> Inl TypeError
      | Some (CfgStr t) \<Rightarrow> Inr (zero_fill 3 t)
      | Some (CfgInt i) \<Rightarrow> Inr (zero_fill 3 (str_int i))
      | Some (CfgFloat r) \<Rightarrow> Inr (zero_fill 3 (float_text env r)))"

text \<open>\<open>int(v)\<close> for a value read from the configuration store.\<close>

definition py_int :: "environment \<Rightarrow> cfg_value option \<Rightarrow> error + int" where
  "py_int env v =
     (case v of
        None \<Rightarrow> Inl TypeError
      | Some (CfgStr t) \<Rightarrow> (case int_of_text env t of None \<Rightarrow> Inl ValueError | Some i \<Rightarrow> Inr i)
      | Some (CfgInt i) \<Rightarrow> Inr i
      | Some (CfgFloat r) \<Rightarrow> Inr (int_of_float r))"

text \<open>A value used as the first component of \<open>os.path.join\<close> has to be text.\<close>

definition py_path :: "cfg_value option \<Rightarrow> error + string" where
  "py_path v = (case v of Some (CfgStr t) \<Rightarrow> Inr t | _ \<Rightarrow> Inl TypeError)"

text \<open>\<open>sep.join(parts)\<close>\<close>

fun str_join :: "string \<Rightarrow> string list \<Rightarrow> string" where
  "str_join sep [] = []"
| "str_join sep [x] = x"
| "str_join sep (x # y # ys) = x @ sep @ str_join sep (y # ys)"

text \<open>\<open>datetime.strftime(d, '%Y%m%d')\<close>\<close>

definition strftime_Ymd :: "datetime \<Rightarrow> string" where
  "strftime_Ymd d =
     zero_fill 4 (str_nat (dt_year d)) @ zero_fill 2 (str_nat (dt_month d))
       @ zero_fill 2 (str_nat (dt_day d))"

definition startswith :: "string \<Rightarrow> string \<Rightarrow> bool" where
  "startswith t pre = (take (length pre) t = pre)"

text \<open>\<open>os.path.basename\<close> and \<open>os.path.dirname\<close>\<close>

definition basename :: "string \<Rightarrow> string" where
  "basename p = rev (takeWhile (\<lambda>c. c \<noteq> CHR ''/'') (rev p))"

definition dirname :: "string \<Rightarrow> string" where
  "dirname p =
     (let h = rev (dropWhile (\<lambda>c. c \<noteq> CHR ''/'') (rev p))
      in if h \<noteq> [] \<and> h \<noteq> replicate (length h) CHR ''/''
         then rev (dropWhile (\<lambda>c. c = CHR ''/'') (rev h)) else h)"

subsection \<open>S2L\_Packager: naming\<close>

definition base_path :: "environment \<Rightarrow> config_store \<Rightarrow> product \<Rightarrow> error + (string \<times> string)" where
  "base_path env cfg product =
     (let relative_orbit = config_get cfg ''relative_orbit'';
          acq = strftime_Ymd (acqdate product);
          tilecode0 = mgrs (mtl product);
          tilecode = (if startswith tilecode0 ''T'' then drop 1 tilecode0 else tilecode0)
      in case format_0gt3 env relative_orbit of
           Inl e \<Rightarrow> Inl e
         | Inr orbit \<Rightarrow>
             Inr (str_join ''_'' [''L2F'', tilecode, acq, sensor_name product, ''R'' @ orbit],
                  tilecode))"

text \<open>The name of a band file: \<open>"_".join([outdir, band, '{}m'.format(int(res))]) + '.TIF'\<close>\<close>

definition band_file :: "string \<Rightarrow> string \<Rightarrow> real \<Rightarrow> string" where
  "band_file outdir band res =
     str_join ''_'' [outdir, band, str_int (int_of_float res) @ ''m''] @ ''.TIF''"

subsection \<open>Python dictionaries with insertion order\<close>

fun dict_set :: "('k \<times> 'v) list \<Rightarrow> 'k \<Rightarrow> 'v \<Rightarrow> ('k \<times> 'v) list" where
  "dict_set [] k v = [(k, v)]"
| "dict_set ((k', v') # rest) k v =
     (if k' = k then (k, v) # rest else (k', v') # dict_set rest k v)"

definition dict_keys :: "('k \<times> 'v) list \<Rightarrow> 'k list" where
  "dict_keys d = map fst d"

text \<open>\<open>del d[k]\<close>, used only after \<open>k in d\<close> has been tested.\<close>

definition dict_del :: "('k \<times> 'v) list \<Rightarrow> 'k \<Rightarrow> ('k \<times> 'v) list" where
  "dict_del d k = filter (\<lambda>kv. fst kv \<noteq> k) d"

subsection \<open>Raster output\<close>

definition emit :: "run_state \<Rightarrow> effect \<Rightarrow> run_state" where
  "emit s e = s\<lparr>effects := effects s @ [e]\<rparr>"

text \<open>
  Modelled from the spec: \<^verbatim>\<open>S2L_ImageFile.write\<close> (raster I/O contract: "write accepts a
  compression option, an optional destination-path override, and a digital-count mode
  flag"), whose class is not part of the two modules. The write is recorded as an effect;
  with a destination override the image object points to the destination afterwards
  ("the output path is recorded in the product's band-path mapping").
\<close>

definition image_write ::
  "run_state \<Rightarrow> image_file \<Rightarrow> string option \<Rightarrow> bool \<Rightarrow> image_file \<times> run_state"
where
  "image_write s img override DCmode =
     (let image' = (case override of
                      None \<Rightarrow> img
                    | Some p \<Rightarrow> img\<lparr>filepath := p, dirpath := dirname p, filename := basename p\<rparr>)
      in (image', emit s (WriteImage (filepath image') DCmode)))"

text \<open>
  Modelled from the spec: \<^verbatim>\<open>mgrs_framing.resample\<close>, the "external resampling
  collaborator" that resamples the image at a path to a resolution and yields the image
  of the destination path.
\<close>

definition resample :: "run_state \<Rightarrow> string \<Rightarrow> int \<Rightarrow> string \<Rightarrow> image_file \<times> run_state" where
  "resample s src res dst =
     (\<lparr>xRes = real_of_int res, filepath = dst, dirpath = dirname dst, filename = basename dst\<rparr>,
      emit s (Resample src res dst))"

subsection \<open>S2L\_Packager: \<^verbatim>\<open>process\<close>\<close>

text \<open>
  The block under \<open>if S2L_config.config.getboolean('hlsplus')\<close>. The lookup
  \<open>product.image30m[band]\<close> comes after the test \<open>band in product.image30m\<close>, so it
  cannot miss.
\<close>

definition secondary_output ::
  "run_state \<Rightarrow> product \<Rightarrow> string \<Rightarrow> string \<Rightarrow> string \<Rightarrow> string \<Rightarrow> run_state \<times> product"
where
  "secondary_output s product band tsdir outdir newpath =
     (let res = 30;
          outfile_30m = band_file outdir band (real_of_int res);
          newpath_30m = path_join tsdir [outdir, outfile_30m];
          s1 = (if sensor product = ''S2'' then
                  (case resample s newpath res newpath_30m of
                     (image_30m, sa) \<Rightarrow> snd (image_write sa image_30m None True))
                else s)
      in if (sensor product = ''L8'' \<or> sensor product = ''L9'')
            \<and> band \<in> set (dict_keys (image30m product)) then
           (case map_of (image30m product) band of
              None \<Rightarrow> (s1, product)
            | Some img \<Rightarrow>
                (snd (image_write s1 img (Some newpath_30m) False),
                 product\<lparr>image30m := dict_del (image30m product) band\<rparr>))
         else (s1, product))"

definition packager_process ::
  "environment \<Rightarrow> run_state \<Rightarrow> product \<Rightarrow> image_file \<Rightarrow> string
     \<Rightarrow> (error + image_file) \<times> run_state \<times> product"
where
  "packager_process env s product img band =
     (let res = xRes img
      in case base_path env (config s) product of
           Inl e \<Rightarrow> (Inl e, s, product)
         | Inr (outdir, tilecode) \<Rightarrow>
             (let outfile = band_file outdir band res
              in case py_path (config_get (config s) ''archive_dir'') of
                   Inl e \<Rightarrow> (Inl e, s, product)
                 | Inr archive_dir \<Rightarrow>
                     (let tsdir = path_join archive_dir [tilecode];
                          newpath = path_join tsdir [outdir, outfile]
                      in case image_write s img (Some newpath) False of
                           (image1, s1) \<Rightarrow>
                             (let s2 = s1\<lparr>images := dict_set (images s1) band (filepath image1)\<rparr>;
                                  s3 = s2\<lparr>config :=
                                         config_set
                                           (config_set (config s2) ''imageout_dir''
                                              (CfgStr (dirpath image1)))
                                           (''imageout_'' @ band) (CfgStr (filename image1))\<rparr>
                              in if getboolean env (config s3) ''hlsplus'' then
                                   (case secondary_output s3 product band tsdir outdir newpath of
                                      (s4, product') \<Rightarrow> (Inr image1, s4, product'))
                                 else (Inr image1, s3, product)))))"

subsection \<open>S2L\_Packager: \<^verbatim>\<open>postprocess\<close>\<close>

text \<open>
  Modelled from the spec: \<^verbatim>\<open>core.S2L_tools.quicklook\<close>, whose code is not part of the
  two modules; a quicklook is requested with a band list, an output path, a JPEG quality
  (default 95) and a brightness offset. The arguments are evaluated as the call site
  writes them, then the request is recorded as an effect.
\<close>

definition quicklook_call ::
  "environment \<Rightarrow> run_state \<Rightarrow> string list \<Rightarrow> string \<Rightarrow> (error + unit) \<times> run_state"
where
  "quicklook_call env s band_list qlpath =
     (let quality = config_get_default (config s) ''quicklook_jpeg_quality'' (CfgInt 95)
      in case py_int env (config_get (config s) ''offset'') of
           Inl e \<Rightarrow> (Inl e, s)
         | Inr offset \<Rightarrow> (Inr (), emit s (Quicklook band_list qlpath quality offset)))"

text \<open>The quicklook selection (\<open>if len(self.images.keys()) > 1: ... else: ...\<close>).\<close>

definition quicklooks ::
  "environment \<Rightarrow> run_state \<Rightarrow> string \<Rightarrow> string \<Rightarrow> (error + unit) \<times> run_state"
where
  "quicklooks env s tsdir outdir =
     (if length (dict_keys (images s)) > 1 then
        (case quicklook_call env s [''B04'', ''B03'', ''B02'']
                (path_join tsdir
                   [''QI'', ''QL_B432'', str_join ''_'' [outdir, ''QL'', ''B432''] @ ''.jpg'']) of
           (Inl e, s1) \<Rightarrow> (Inl e, s1)
         | (Inr u, s1) \<Rightarrow>
             quicklook_call env s1 [''B12'', ''B11'', ''B8A'']
               (path_join tsdir
                  [''QI'', ''QL_B12118A'', str_join ''_'' [outdir, ''QL'', ''B12118A''] @ ''.jpg'']))
      else
        (let band_list = dict_keys (images s)
         in case py_index band_list 0 of
              Inl e \<Rightarrow> (Inl e, s)
            | Inr b0 \<Rightarrow>
                quicklook_call env s band_list
                  (path_join tsdir
                     [''QI'', ''QL_'' @ b0, str_join ''_'' [outdir, ''QL'', b0] @ ''.jpg''])))"

definition copy_auxiliaries :: "environment \<Rightarrow> run_state \<Rightarrow> product \<Rightarrow> string \<Rightarrow> string \<Rightarrow> run_state" where
  "copy_auxiliaries env s product tsdir outdir =
     (let s1 = emit s (CopyFile (mtl_file_name (mtl product))
                         (path_join tsdir [outdir, basename (mtl_file_name (mtl product))]));
          s2 = (case tile_metadata (mtl product) of
                  None \<Rightarrow> s1
                | Some tm \<Rightarrow>
                    if tm = [] then s1
                    else emit s1 (CopyFile tm (path_join tsdir [outdir, basename tm])));
          s3 = emit s2 (CopyFile (angles_file product)
                          (path_join tsdir [outdir, str_join ''_'' [outdir, ''ANG''] @ ''.TIF'']));
          s4 = emit s3 (CopyFile (mask_filename product)
                          (path_join tsdir [outdir, str_join ''_'' [outdir, ''MSK''] @ ''.TIF'']));
          qipath = path_join tsdir [''QI'']
      in if \<not> path_exists env qipath then emit s4 (MakeDirs qipath) else s4)"

definition save_reports ::
  "environment \<Rightarrow> run_state \<Rightarrow> product \<Rightarrow> string \<Rightarrow> string \<Rightarrow> string \<Rightarrow> run_state"
where
  "save_reports env s product tsdir outdir wd =
     (let cfgname = str_join ''_'' [outdir, ''INFO''] @ ''.cfg'';
          cfgpath = path_join tsdir [''QI'', cfgname];
          s6 = emit s (SaveConfig (path_join wd [product_name product, cfgpath]));
          correl = path_join wd [product_name product, ''correl_res.txt'']
      in if path_exists env correl then
           emit s6 (CopyFile correl
                      (path_join tsdir [''QI'', str_join ''_'' [outdir, ''CORREL''] @ ''.csv'']))
         else s6)"

definition packager_postprocess ::
  "environment \<Rightarrow> run_state \<Rightarrow> product \<Rightarrow> (error + unit) \<times> run_state"
where
  "packager_postprocess env s product =
     (case base_path env (config s) product of
        Inl e \<Rightarrow> (Inl e, s)
      | Inr (outdir, tilecode) \<Rightarrow>
          (case py_path (config_get (config s) ''archive_dir'') of
             Inl e \<Rightarrow> (Inl e, s)
           | Inr archive_dir \<Rightarrow>
               (let tsdir = path_join archive_dir [tilecode];
                    s5 = copy_auxiliaries env s product tsdir outdir
                in case py_path (config_get (config s5) ''wd'') of
                     Inl e \<Rightarrow> (Inl e, s5)
                   | Inr wd \<Rightarrow>
                       (case quicklooks env (save_reports env s5 product tsdir outdir wd)
                               tsdir outdir of
                          (Inl e, s8) \<Rightarrow> (Inl e, s8)
                        | (Inr u, s8) \<Rightarrow> (Inr (), s8\<lparr>images := []\<rparr>)))))"

subsection \<open>Packaging a run of products\<close>

text \<open>
  Modelled from the spec: the control flow around the packager ("Packager consumes each
  corrected band image as it is produced, then finalizes the product"), whose code is
  outside the two modules. The class attribute \<open>images = {}\<close> is the registry before the
  first call; an exception ends the run.
\<close>

definition initial_state :: "config_store \<Rightarrow> run_state" where
  "initial_state cfg =
     \<lparr>config = cfg, arrays = (\<lambda>a. []), next_array = 0, qi = Map.empty, images = [],
      effects = []\<rparr>"

fun package_bands ::
  "environment \<Rightarrow> run_state \<Rightarrow> product \<Rightarrow> (image_file \<times> string) list
     \<Rightarrow> (error + unit) \<times> run_state \<times> product"
where
  "package_bands env s product [] = (Inr (), s, product)"
| "package_bands env s product ((img, band) # rest) =
     (case packager_process env s product img band of
        (Inl e, s1, p1) \<Rightarrow> (Inl e, s1, p1)
      | (Inr out_image, s1, p1) \<Rightarrow> package_bands env s1 p1 rest)"

definition package_product ::
  "environment \<Rightarrow> run_state \<Rightarrow> product \<times> (image_file \<times> string) list
     \<Rightarrow> (error + unit) \<times> run_state"
where
  "package_product env s pb =
     (case package_bands env s (fst pb) (snd pb) of
        (Inl e, s1, p1) \<Rightarrow> (Inl e, s1)
      | (Inr u, s1, p1) \<Rightarrow> packager_postprocess env s1 p1)"

fun package_run ::
  "environment \<Rightarrow> run_state \<Rightarrow> (product \<times> (image_file \<times> string) list) list
     \<Rightarrow> (error + unit) \<times> run_state"
where
  "package_run env s [] = (Inr (), s)"
| "package_run env s (pb # rest) =
     (case package_product env s pb of
        (Inl e, s1) \<Rightarrow> (Inl e, s1)
      | (Inr u, s1) \<Rightarrow> package_run env s1 rest)"

subsection \<open>Effects of a call\<close>

text \<open>The effects a call has added to the log, and those that are quicklook requests.\<close>

definition emitted :: "run_state \<Rightarrow> run_state \<Rightarrow> effect list" where
  "emitted s s' = drop (length (effects s)) (effects s')"

fun is_quicklook :: "effect \<Rightarrow> bool" where
  "is_quicklook (Quicklook band_list qlpath quality offset) = True"
| "is_quicklook e = False"

subsection \<open>A concrete scene\<close>

text \<open>
  One Sentinel-2 product and one Landsat-8 product with an environment in which no CAMS
  data is configured; the theorems below are instantiated on them.
\<close>

definition demo_env :: environment where
  "demo_env =
     \<lparr>strptime = (\<lambda>t. if t = ''2021-05-04T10:20:31.000000Z''
                        then Some \<lparr>dt_year = 2021, dt_month = 5, dt_day = 4\<rparr> else None),
      ECMWF_Product = (\<lambda>c t. \<lparr>is_valid = (cams_default c \<noteq> None), ecmwf_handle = 0\<rparr>),
      atmo_project = (\<lambda>e lat lon. \<lparr>getTotalColumnWaterVapor = 2, getTotalOzone = 0.3,
                                      getAirPressure = 1000, aod550 = 0.1\<rparr>),
      compute_model = (\<lambda>extent v. (0, 0, hd v)),
      smac_directory = ''/opt/smac'',
      path_exists = (\<lambda>p. p = ''/opt/smac/COEFS/Coef_S2A_CONT_B4.dat''),
      smac_coeff = (\<lambda>f. []),
      smac_inv = (\<lambda>r ths phs thv phv p tau o3 h2o coefs. r),
      polyfit = (\<lambda>xs ys deg. ([0, 1, 0], [0])),
      getboolean = (\<lambda>cfg opt. cfg opt = Some (CfgStr ''True'')),
      int_of_text = (\<lambda>t. if t = ''0'' then Some 0 else None),
      float_text = (\<lambda>r. str_int (int_of_float r) @ ''.0'')\<rparr>"

definition demo_mtl :: mtl_metadata where
  "demo_mtl =
     \<lparr>observation_date = ''2021-05-04'', scene_center_time = ''10:20:31.000000Z'',
      sun_zenith_angle = 30, sun_azimuth_angle = 150, mgrs = ''T32TQM'',
      mtl_file_name = ''/in/S2A/MTD_MSIL1C.xml'', tile_metadata = Some ''/in/S2A/MTD_TL.xml''\<rparr>"

definition demo_product :: product where
  "demo_product =
     \<lparr>mtl = demo_mtl, product_name = ''S2A_20210504'',
      acqdate = \<lparr>dt_year = 2021, dt_month = 5, dt_day = 4\<rparr>,
      sensor = ''S2'', sensor_name = ''S2A'',
      angles_file = ''/wd/angles.tif'', mask_filename = ''/wd/mask.tif'', image30m = [],
      get_smac_filename = (\<lambda>b. if b = ''B04'' then Some ''Coef_S2A_CONT_B4.dat'' else None)\<rparr>"

definition demo_image :: image_file where
  "demo_image = \<lparr>xRes = 10, filepath = ''/wd/B04.TIF'', dirpath = ''/wd'', filename = ''B04.TIF''\<rparr>"

definition demo_image30 :: image_file where
  "demo_image30 =
     \<lparr>xRes = 30, filepath = ''/wd/B04_30m.TIF'', dirpath = ''/wd'', filename = ''B04_30m.TIF''\<rparr>"

definition demo_l8_product :: product where
  "demo_l8_product =
     demo_product\<lparr>sensor := ''L8'', sensor_name := ''LS8'', image30m := [(''B04'', demo_image30)]\<rparr>"

definition demo_config :: config_store where
  "demo_config =
     [''archive_dir'' \<mapsto> CfgStr ''/archive'', ''relative_orbit'' \<mapsto> CfgInt 7,
      ''offset'' \<mapsto> CfgStr ''0'', ''wd'' \<mapsto> CfgStr ''/wd'',
      ''use_smac'' \<mapsto> CfgStr ''True'', ''hlsplus'' \<mapsto> CfgStr ''True'']"

definition demo_state :: run_state where
  "demo_state =
     (initial_state demo_config)\<lparr>arrays := (\<lambda>a. [[0, 1 / 2], [- 1, 1]]), next_array := 1\<rparr>"

definition demo_extent :: "real list" where
  "demo_extent = [10, 45, 11, 45, 11, 44, 10, 44]"

section \<open>Properties of the atmospheric correction\<close>

subsection \<open>Fallback constants\<close>

lemma config_apply_curve: "config (snd (apply_curve s pc a)) = config s"
  by (simp add: apply_curve_def new_array_def Let_def split: prod.splits sum.splits)

lemma record_atmosphere_lookup:
  "record_atmosphere cfg atm ''uH2O'' = Some (CfgFloat (uH2O atm))"
  "record_atmosphere cfg atm ''uO3'' = Some (CfgFloat (uO3 atm))"
  "record_atmosphere cfg atm ''pressure'' = Some (CfgFloat (pressure atm))"
  "record_atmosphere cfg atm ''taup550'' = Some (CfgFloat (taup550 atm))"
  by (simp_all add: record_atmosphere_def config_set_def)

lemma smac_correction_config:
  assumes "strptime env (observation_date (mtl product) @ ''T'' @ scene_center_time (mtl product))
             = Some t"
    and "resolve_atmosphere env (ECMWF_Product env (get_cams_configuration (config s)) t) extent
           = Inr atm"
  shows "config (snd (smac_correction env s product array_in extent band))
           = record_atmosphere (config s) atm"
  using assms
  by (simp add: smac_correction_def Let_def config_apply_curve split: option.splits)

text \<open>
  Claim C1. When the sensing time parses and the CAMS dataset is not valid for it, the
  scene's atmospheric state resolves to exactly uH2O = 2.0, uO3 = 0.331,
  pressure = 1013.095, taup550 = 0.2, whatever the extent; and after
  \<open>smac_correction\<close> (whether it returns or raises later) the configuration store holds
  these four values under the keys \<open>uH2O\<close>, \<open>uO3\<close>, \<open>pressure\<close>, \<open>taup550\<close>.
\<close>

theorem data_unavailable_fallback:
  assumes "strptime env (observation_date (mtl product) @ ''T'' @ scene_center_time (mtl product))
             = Some t"
    and "\<not> is_valid (ECMWF_Product env (get_cams_configuration (config s)) t)"
  shows "resolve_atmosphere env (ECMWF_Product env (get_cams_configuration (config s)) t) extent
           = Inr \<lparr>uH2O = 2.0, uO3 = 0.331, pressure = 1013.095, taup550 = 0.2\<rparr>
       \<and> (let cfg' = config (snd (smac_correction env s product array_in extent band))
          in config_get cfg' ''uH2O'' = Some (CfgFloat 2.0)
           \<and> config_get cfg' ''uO3'' = Some (CfgFloat 0.331)
           \<and> config_get cfg' ''pressure'' = Some (CfgFloat 1013.095)
           \<and> config_get cfg' ''taup550'' = Some (CfgFloat 0.2))"
proof -
  let ?e = "ECMWF_Product env (get_cams_configuration (config s)) t"
  have r: "resolve_atmosphere env ?e extent
             = Inr \<lparr>uH2O = 2.0, uO3 = 0.331, pressure = 1013.095, taup550 = 0.2\<rparr>"
    using assms(2) by (simp add: resolve_atmosphere_def)
  have c: "config (snd (smac_correction env s product array_in extent band))
             = record_atmosphere (config s)
                 \<lparr>uH2O = 2.0, uO3 = 0.331, pressure = 1013.095, taup550 = 0.2\<rparr>"
    by (rule smac_correction_config [OF assms(1) r])
  show ?thesis
    unfolding Let_def c config_get_def record_atmosphere_lookup using r by simp
qed

lemma demo_strptime:
  "strptime demo_env
     (observation_date (mtl demo_product) @ ''T'' @ scene_center_time (mtl demo_product))
     = Some \<lparr>dt_year = 2021, dt_month = 5, dt_day = 4\<rparr>"
  by (simp add: demo_env_def demo_product_def demo_mtl_def)

lemma demo_not_valid:
  "\<not> is_valid (ECMWF_Product demo_env (get_cams_configuration (config demo_state)) t)"
  by (simp add: demo_env_def demo_state_def initial_state_def demo_config_def
      get_cams_configuration_def config_get_def)

theorem data_unavailable_fallback_witness:
  "config_get (config (snd (smac_correction demo_env demo_state demo_product 0 demo_extent ''B04'')))
     ''pressure'' = Some (CfgFloat 1013.095)
   \<and> config_get (config (snd (smac_correction demo_env demo_state demo_product 0 demo_extent ''B04'')))
     ''uO3'' = Some (CfgFloat 0.331)"
  using data_unavailable_fallback [OF demo_strptime demo_not_valid, of demo_extent 0 "''B04''"]
  by (simp add: Let_def)

subsection \<open>Bands without coefficients\<close>

text \<open>
  Claim C2. When no SMAC coefficient file exists for the band, \<open>smac_correction\<close> leaves
  the array store untouched (no array is created and no pixel is modified), every array
  it returns is the input array itself (the same address), and it does return the input
  array whenever the steps before the coefficient lookup (parsing the sensing time,
  resolving the atmospheric state) do not raise.
\<close>

theorem unsupported_band_passthrough:
  assumes "get_smac_coefficients env product band = None"
  shows "arrays (snd (smac_correction env s product array_in extent band)) = arrays s
       \<and> next_array (snd (smac_correction env s product array_in extent band)) = next_array s
       \<and> (\<forall>a. fst (smac_correction env s product array_in extent band) = Inr a \<longrightarrow> a = array_in)
       \<and> (\<forall>t atm.
             strptime env (observation_date (mtl product) @ ''T'' @ scene_center_time (mtl product))
               = Some t
             \<and> resolve_atmosphere env (ECMWF_Product env (get_cams_configuration (config s)) t)
                 extent = Inr atm
             \<longrightarrow> fst (smac_correction env s product array_in extent band) = Inr array_in)"
  using assms
  by (auto simp add: smac_correction_def Let_def split: option.splits sum.splits)

lemma demo_no_coefficients: "get_smac_coefficients demo_env demo_product ''B8A'' = None"
  by (simp add: get_smac_coefficients_def demo_product_def)

theorem unsupported_band_passthrough_witness:
  "fst (smac_correction demo_env demo_state demo_product 0 demo_extent ''B8A'') = Inr 0
   \<and> arrays (snd (smac_correction demo_env demo_state demo_product 0 demo_extent ''B8A'')) 0
       = [[0, 1 / 2], [- 1, 1]]"
proof -
  have r: "resolve_atmosphere demo_env
             (ECMWF_Product demo_env (get_cams_configuration (config demo_state))
                \<lparr>dt_year = 2021, dt_month = 5, dt_day = 4\<rparr>) demo_extent
             = Inr \<lparr>uH2O = 2.0, uO3 = 0.331, pressure = 1013.095, taup550 = 0.2\<rparr>"
    using demo_not_valid by (simp add: resolve_atmosphere_def)
  have a: "arrays demo_state 0 = [[0, 1 / 2], [- 1, 1]]"
    by (simp add: demo_state_def)
  from unsupported_band_passthrough [OF demo_no_coefficients, of demo_state 0 demo_extent]
    demo_strptime r a
  show ?thesis by metis
qed

subsection \<open>The correction curve\<close>

lemma smac_loop_length: "length (smac_loop f toa idx surf) = length surf"
  by (induction idx arbitrary: surf) simp_all

lemma smac_loop_nth:
  "j < length surf \<Longrightarrow>
   smac_loop f toa idx surf ! j = (if j \<in> set idx then f (toa ! j) else surf ! j)"
proof (induction idx arbitrary: surf)
  case Nil
  then show ?case by simp
next
  case (Cons i rest)
  then show ?case by (simp add: nth_list_update)
qed

lemma smac_loop_upt:
  assumes "length toa = n" "length surf = n"
  shows "smac_loop f toa [0..<n] surf = map f toa"
proof (rule nth_equalityI)
  show "length (smac_loop f toa [0..<n] surf) = length (map f toa)"
    using assms by (simp add: smac_loop_length)
next
  fix j assume "j < length (smac_loop f toa [0..<n] surf)"
  then have "j < n" using assms by (simp add: smac_loop_length)
  then show "smac_loop f toa [0..<n] surf ! j = map f toa ! j"
    using assms by (simp add: smac_loop_nth)
qed

lemma build_curve_fit:
  "poly_coefs (build_curve env m atm coef_file)
     = polyfit env (r_toa (build_curve env m atm coef_file))
         (r_surf_SMAC (build_curve env m atm coef_file)) 2"
  by (simp add: build_curve_def Let_def)

text \<open>
  Claim C3. The curve built for a band has 101 TOA samples and 101 surface samples; the
  i-th TOA sample is i/100, so the samples run from 0 to 1 in steps of 0.01; the i-th
  surface sample is the SMAC inversion of the i-th TOA sample under the sun angles of
  the metadata, nadir view and the resolved atmospheric state; and the fit kept with
  the curve (coefficients and residuals) is that of \<open>polyfit\<close> on these samples with
  degree 2.
\<close>

theorem correction_curve_samples:
  "length (r_toa (build_curve env m atm coef_file)) = 101
   \<and> length (r_surf_SMAC (build_curve env m atm coef_file)) = 101
   \<and> (\<forall>i<101. r_toa (build_curve env m atm coef_file) ! i = real i / 100
         \<and> r_surf_SMAC (build_curve env m atm coef_file) ! i
             = smac_inv env (r_toa (build_curve env m atm coef_file) ! i)
                 (sun_zenith_angle m) (sun_azimuth_angle m) 0 0
                 (pressure atm) (taup550 atm) (uO3 atm) (uH2O atm) (smac_coeff env coef_file))
   \<and> hd (r_toa (build_curve env m atm coef_file)) = 0
   \<and> last (r_toa (build_curve env m atm coef_file)) = 1
   \<and> (\<forall>i<100. r_toa (build_curve env m atm coef_file) ! Suc i
                 - r_toa (build_curve env m atm coef_file) ! i = 1 / 100)
   \<and> poly_coefs (build_curve env m atm coef_file)
       = polyfit env (r_toa (build_curve env m atm coef_file))
           (r_surf_SMAC (build_curve env m atm coef_file)) 2"
proof -
  let ?toa = "map (\<lambda>i. real i / 100) [0..<101]"
  let ?f = "\<lambda>r. smac_inv env r (sun_zenith_angle m) (sun_azimuth_angle m) 0 0
                (pressure atm) (taup550 atm) (uO3 atm) (uH2O atm) (smac_coeff env coef_file)"
  have toa: "r_toa (build_curve env m atm coef_file) = ?toa"
    by (simp add: build_curve_def Let_def)
  have "r_surf_SMAC (build_curve env m atm coef_file)
          = smac_loop ?f ?toa [0..<101] (replicate 101 0)"
    by (simp add: build_curve_def Let_def)
  also have "\<dots> = map ?f ?toa"
    by (rule smac_loop_upt) simp_all
  finally have surf: "r_surf_SMAC (build_curve env m atm coef_file) = map ?f ?toa" .
  have len: "length ?toa = 101" by simp
  have nth: "\<And>i. i < 101 \<Longrightarrow> ?toa ! i = real i / 100"
    by (simp del: upt_Suc)
  have h: "hd ?toa = 0"
    by (simp add: hd_map upt_conv_Cons del: upt_Suc)
  have l: "last ?toa = 1"
    by (simp add: last_map del: upt_Suc)
  have step: "\<And>i. i < 100 \<Longrightarrow> ?toa ! Suc i - ?toa ! i = 1 / 100"
    by (simp add: field_simps del: upt_Suc)
  show ?thesis
    unfolding build_curve_fit unfolding toa surf
    using len nth h l step
    by (simp del: upt_Suc map_map)
qed

theorem correction_curve_samples_witness:
  "r_toa (build_curve demo_env demo_mtl
            \<lparr>uH2O = 2.0, uO3 = 0.331, pressure = 1013.095, taup550 = 0.2\<rparr> ''c.dat'') ! 50 = 1 / 2
   \<and> r_surf_SMAC (build_curve demo_env demo_mtl
            \<lparr>uH2O = 2.0, uO3 = 0.331, pressure = 1013.095, taup550 = 0.2\<rparr> ''c.dat'') ! 50 = 1 / 2
   \<and> poly_coefs (build_curve demo_env demo_mtl
            \<lparr>uH2O = 2.0, uO3 = 0.331, pressure = 1013.095, taup550 = 0.2\<rparr> ''c.dat'')
       = ([0, 1, 0], [0])"
proof -
  let ?c = "build_curve demo_env demo_mtl
              \<lparr>uH2O = 2.0, uO3 = 0.331, pressure = 1013.095, taup550 = 0.2\<rparr> ''c.dat''"
  have p: "\<And>xs ys. polyfit demo_env xs ys 2 = ([0, 1, 0], [0])"
    by (simp add: demo_env_def)
  have i: "\<And>r a b c d e f g h k. smac_inv demo_env r a b c d e f g h k = r"
    by (simp add: demo_env_def)
  note th = correction_curve_samples [of demo_env demo_mtl
      "\<lparr>uH2O = 2.0, uO3 = 0.331, pressure = 1013.095, taup550 = 0.2\<rparr>" "''c.dat''",
      unfolded p i]
  from th have a: "\<forall>i<101. r_toa ?c ! i = real i / 100 \<and> r_surf_SMAC ?c ! i = r_toa ?c ! i"
    by blast
  have b: "r_toa ?c ! 50 = real 50 / 100 \<and> r_surf_SMAC ?c ! 50 = r_toa ?c ! 50"
    using a [rule_format, of 50] by simp
  from th have c: "poly_coefs ?c = ([0, 1, 0], [0])"
    by blast
  show ?thesis using b c by simp
qed

subsection \<open>Applying the fitted polynomial\<close>

lemma zip_map_same: "zip xs (map f xs) = map (\<lambda>x. (x, f x)) xs"
  by (induction xs) simp_all

lemma mask_assign_poly_eval:
  "mask_assign g (poly_eval c0 c1 c2 g)
     = map (map (\<lambda>t. if t \<le> 0 then 0 else c0 + c1 * t + c2 * t ^ 2)) g"
  by (simp add: mask_assign_def poly_eval_def zip_map_same o_def)

lemma apply_curve_ok:
  assumes "2 < length (fst pc)" "snd pc \<noteq> []"
  shows "fst (apply_curve s pc array_in) = Inr (Suc (next_array s))
       \<and> arrays (snd (apply_curve s pc array_in))
           = (arrays s)
               (next_array s := arrays s array_in,
                Suc (next_array s) :=
                  map (map (\<lambda>t. if t \<le> 0 then 0
                                 else fst pc ! 2 + fst pc ! 1 * t + fst pc ! 0 * t ^ 2))
                    (arrays s array_in))"
proof -
  have i: "py_index (fst pc) 2 = Inr (fst pc ! 2)" "py_index (fst pc) 1 = Inr (fst pc ! 1)"
    "py_index (fst pc) 0 = Inr (fst pc ! 0)" "py_index (snd pc) 0 = Inr (snd pc ! 0)"
    using assms by (auto simp add: py_index_def)
  show ?thesis
    unfolding apply_curve_def new_array_def i
    by (simp add: Let_def mask_assign_poly_eval del: One_nat_def)
qed

text \<open>
  Claim C4. When the coefficient file exists and the fit has its three coefficients and
  its residual, \<open>smac_correction\<close> returns an array whose pixels are
  \<open>c0 + c1 * toa + c2 * toa\<^sup>2\<close> of the input pixels, with \<open>c0\<close>, \<open>c1\<close>, \<open>c2\<close> the fitted
  coefficients of degree 0, 1 and 2, except that every pixel whose input is \<open>\<le> 0\<close> is
  0; an input grid of zeros gives a grid of zeros; the returned array is a new one and
  the input array keeps its pixels (for an input address that is in use).
\<close>

theorem band_correction_application:
  assumes "strptime env (observation_date (mtl product) @ ''T'' @ scene_center_time (mtl product))
             = Some t"
    and "resolve_atmosphere env (ECMWF_Product env (get_cams_configuration (config s)) t) extent
           = Inr atm"
    and "get_smac_coefficients env product band = Some coef_file"
    and "pc = poly_coefs (build_curve env (mtl product) atm coef_file)"
    and "2 < length (fst pc)"
    and "snd pc \<noteq> []"
  shows "\<exists>surf_ref s'.
           smac_correction env s product array_in extent band = (Inr surf_ref, s')
         \<and> arrays s' surf_ref
             = map (map (\<lambda>t. if t \<le> 0 then 0
                              else fst pc ! 2 + fst pc ! 1 * t + fst pc ! 0 * t ^ 2))
                 (arrays s array_in)
         \<and> ((\<forall>row \<in> set (arrays s array_in). \<forall>t \<in> set row. t = 0)
              \<longrightarrow> (\<forall>row \<in> set (arrays s' surf_ref). \<forall>v \<in> set row. v = 0))
         \<and> (array_in < next_array s
              \<longrightarrow> surf_ref \<noteq> array_in \<and> arrays s' array_in = arrays s array_in)"
proof -
  let ?s1 = "s\<lparr>config := record_atmosphere (config s) atm\<rparr>"
  let ?g = "map (map (\<lambda>t. if t \<le> 0 then 0
                           else fst pc ! 2 + fst pc ! 1 * t + fst pc ! 0 * t ^ 2))
              (arrays s array_in)"
  let ?r = "smac_correction env s product array_in extent band"
  have c: "?r = apply_curve ?s1 pc array_in"
    using assms(1-4) by (simp add: smac_correction_def Let_def)
  have f: "fst ?r = Inr (Suc (next_array s))"
    and a: "arrays (snd ?r)
              = (arrays s)(next_array s := arrays s array_in, Suc (next_array s) := ?g)"
    unfolding c using apply_curve_ok [OF assms(5,6), of ?s1 array_in] by simp_all
  have e: "?r = (Inr (Suc (next_array s)), snd ?r)"
    using f by (simp add: prod_eq_iff)
  have g: "arrays (snd ?r) (Suc (next_array s)) = ?g"
    unfolding a by simp
  have z: "(\<forall>row \<in> set (arrays s array_in). \<forall>t \<in> set row. t = 0)
             \<longrightarrow> (\<forall>row \<in> set ?g. \<forall>v \<in> set row. v = 0)"
    by auto
  have k: "array_in < next_array s
             \<longrightarrow> Suc (next_array s) \<noteq> array_in \<and> arrays (snd ?r) array_in = arrays s array_in"
    unfolding a by simp
  show ?thesis
  proof (intro exI conjI)
    show "?r = (Inr (Suc (next_array s)), snd ?r)" by (rule e)
    show "arrays (snd ?r) (Suc (next_array s)) = ?g" by (rule g)
    show "(\<forall>row \<in> set (arrays s array_in). \<forall>t \<in> set row. t = 0)
            \<longrightarrow> (\<forall>row \<in> set (arrays (snd ?r) (Suc (next_array s))). \<forall>v \<in> set row. v = 0)"
      unfolding g by (rule z)
    show "array_in < next_array s
            \<longrightarrow> Suc (next_array s) \<noteq> array_in \<and> arrays (snd ?r) array_in = arrays s array_in"
      by (rule k)
  qed
qed

lemma demo_coefficients:
  "get_smac_coefficients demo_env demo_product ''B04''
     = Some ''/opt/smac/COEFS/Coef_S2A_CONT_B4.dat''"
  by (simp add: get_smac_coefficients_def demo_product_def demo_env_def path_join_def)

lemma demo_resolve:
  "resolve_atmosphere demo_env
     (ECMWF_Product demo_env (get_cams_configuration (config demo_state)) t) demo_extent
     = Inr \<lparr>uH2O = 2.0, uO3 = 0.331, pressure = 1013.095, taup550 = 0.2\<rparr>"
  using demo_not_valid by (simp add: resolve_atmosphere_def)

theorem band_correction_application_witness:
  "\<exists>surf_ref s'.
     smac_correction demo_env demo_state demo_product 0 demo_extent ''B04'' = (Inr surf_ref, s')
     \<and> arrays s' surf_ref = [[0, 1 / 2], [0, 1]]
     \<and> surf_ref \<noteq> 0 \<and> arrays s' 0 = [[0, 1 / 2], [- 1, 1]]"
proof -
  have p: "poly_coefs (build_curve demo_env (mtl demo_product)
             \<lparr>uH2O = 2.0, uO3 = 0.331, pressure = 1013.095, taup550 = 0.2\<rparr>
             ''/opt/smac/COEFS/Coef_S2A_CONT_B4.dat'') = ([0, 1, 0], [0])"
    unfolding build_curve_fit by (simp add: demo_env_def)
  have a: "arrays demo_state 0 = [[0, 1 / 2], [- 1, 1]]" "0 < next_array demo_state"
    by (simp_all add: demo_state_def)
  have l: "2 < length (fst ([0::real, 1, 0], [0::real]))" "snd ([0::real, 1, 0], [0::real]) \<noteq> []"
    by simp_all
  from band_correction_application [OF demo_strptime demo_resolve demo_coefficients p [symmetric] l,
      where array_in = 0] a(2)
  show ?thesis unfolding a(1) by auto
qed

subsection \<open>Quality indicators\<close>








section \<open>Properties of the packager\<close>

subsection \<open>Writing a band\<close>

lemma emit_simps:
  "effects (emit s e) = effects s @ [e]"
  "config (emit s e) = config s"
  "images (emit s e) = images s"
  by (simp_all add: emit_def)

lemma secondary_output_S2:
  assumes "sensor product = ''S2''"
  shows "secondary_output s product band tsdir outdir newpath =
           (emit (emit s (Resample newpath 30 (path_join tsdir [outdir, band_file outdir band 30])))
              (WriteImage (path_join tsdir [outdir, band_file outdir band 30]) True),
            product)"
  using assms
  by (simp add: secondary_output_def Let_def resample_def image_write_def)

lemma secondary_output_L8:
  assumes "sensor product = ''L8'' \<or> sensor product = ''L9''"
    and "map_of (image30m product) band = Some im"
  shows "secondary_output s product band tsdir outdir newpath =
           (emit s (WriteImage (path_join tsdir [outdir, band_file outdir band 30]) False),
            product\<lparr>image30m := dict_del (image30m product) band\<rparr>)"
proof -
  have "band \<in> set (dict_keys (image30m product))"
    using assms(2) by (auto simp add: dict_keys_def dest: map_of_SomeD intro: rev_image_eqI)
  moreover have "sensor product \<noteq> ''S2''"
    using assms(1) by auto
  ultimately show ?thesis
    using assms by (simp add: secondary_output_def Let_def image_write_def)
qed

lemma secondary_output_none:
  assumes "sensor product \<noteq> ''S2''"
    and "\<not> ((sensor product = ''L8'' \<or> sensor product = ''L9'')
             \<and> band \<in> set (dict_keys (image30m product)))"
  shows "secondary_output s product band tsdir outdir newpath = (s, product)"
  using assms by (auto simp add: secondary_output_def Let_def)

lemma secondary_output_extends:
  "\<exists>xs. effects (fst (secondary_output s product band tsdir outdir newpath)) = effects s @ xs"
  "images (fst (secondary_output s product band tsdir outdir newpath)) = images s"
  "config (fst (secondary_output s product band tsdir outdir newpath)) = config s"
proof -
  consider (a) "sensor product = ''S2''"
    | (b) "sensor product \<noteq> ''S2''" "(sensor product = ''L8'' \<or> sensor product = ''L9'')
             \<and> band \<in> set (dict_keys (image30m product))"
    | (c) "sensor product \<noteq> ''S2''" "\<not> ((sensor product = ''L8'' \<or> sensor product = ''L9'')
             \<and> band \<in> set (dict_keys (image30m product)))"
    by blast
  then have "(\<exists>xs. effects (fst (secondary_output s product band tsdir outdir newpath)) = effects s @ xs)
    \<and> images (fst (secondary_output s product band tsdir outdir newpath)) = images s
    \<and> config (fst (secondary_output s product band tsdir outdir newpath)) = config s"
  proof cases
    case a
    then show ?thesis by (simp add: secondary_output_S2 emit_simps)
  next
    case b
    then have "map_of (image30m product) band \<noteq> None"
      by (simp add: map_of_eq_None_iff dict_keys_def)
    then obtain im where "map_of (image30m product) band = Some im"
      by blast
    with b show ?thesis by (simp add: secondary_output_L8 emit_simps)
  next
    case c
    then show ?thesis by (simp add: secondary_output_none)
  qed
  then show "\<exists>xs. effects (fst (secondary_output s product band tsdir outdir newpath)) = effects s @ xs"
    and "images (fst (secondary_output s product band tsdir outdir newpath)) = images s"
    and "config (fst (secondary_output s product band tsdir outdir newpath)) = config s"
    by blast+
qed

lemma packager_process_unfold:
  assumes "base_path env (config s) product = Inr (outdir, tilecode)"
    and "config_get (config s) ''archive_dir'' = Some (CfgStr a)"
    and "newpath = path_join (path_join a [tilecode]) [outdir, band_file outdir band (xRes img)]"
    and "image1 = img\<lparr>filepath := newpath, dirpath := dirname newpath, filename := basename newpath\<rparr>"
    and "s3 = s\<lparr>effects := effects s @ [WriteImage newpath False],
                 images := dict_set (images s) band newpath,
                 config := config_set
                             (config_set (config s) ''imageout_dir'' (CfgStr (dirname newpath)))
                             (''imageout_'' @ band) (CfgStr (basename newpath))\<rparr>"
  shows "packager_process env s product img band =
           (if getboolean env (config s3) ''hlsplus'' then
              (Inr image1,
               secondary_output s3 product band (path_join a [tilecode]) outdir newpath)
            else (Inr image1, s3, product))"
  unfolding packager_process_def assms(1) assms(2) py_path_def
  by (simp add: Let_def image_write_def emit_def assms(3-5) split: prod.splits)

lemma packager_process_ok:
  assumes "base_path env (config s) product = Inr (outdir, tilecode)"
    and "config_get (config s) ''archive_dir'' = Some (CfgStr a)"
    and "newpath = path_join (path_join a [tilecode]) [outdir, band_file outdir band (xRes img)]"
  shows "fst (packager_process env s product img band)
           = Inr (img\<lparr>filepath := newpath, dirpath := dirname newpath,
                      filename := basename newpath\<rparr>)"
    "images (fst (snd (packager_process env s product img band)))
           = dict_set (images s) band newpath"
    "\<exists>xs. effects (fst (snd (packager_process env s product img band)))
                = effects s @ WriteImage newpath False # xs"
proof -
  let ?s3 = "s\<lparr>effects := effects s @ [WriteImage newpath False],
                 images := dict_set (images s) band newpath,
                 config := config_set
                             (config_set (config s) ''imageout_dir'' (CfgStr (dirname newpath)))
                             (''imageout_'' @ band) (CfgStr (basename newpath))\<rparr>"
  let ?so = "secondary_output ?s3 product band (path_join a [tilecode]) outdir newpath"
  note u = packager_process_unfold [OF assms refl refl]
  show "fst (packager_process env s product img band)
           = Inr (img\<lparr>filepath := newpath, dirpath := dirname newpath,
                      filename := basename newpath\<rparr>)"
    unfolding u by simp
  show "images (fst (snd (packager_process env s product img band)))
           = dict_set (images s) band newpath"
    unfolding u by (simp add: secondary_output_extends(2))
  obtain xs where "effects (fst ?so) = effects ?s3 @ xs"
    using secondary_output_extends(1) by blast
  then show "\<exists>xs. effects (fst (snd (packager_process env s product img band)))
                = effects s @ WriteImage newpath False # xs"
    unfolding u by simp
qed

subsection \<open>Naming of band files\<close>

lemma str_nat_digit: "n < 10 \<Longrightarrow> str_nat n = [digit_char n]"
  by (subst str_nat.simps) simp

lemma str_nat_step: "\<not> n < 10 \<Longrightarrow> str_nat n = str_nat (n div 10) @ [digit_char (n mod 10)]"
  by (subst str_nat.simps) simp


lemma replicate_small:
  "replicate 2 x = [x, x]" "replicate 3 x = [x, x, x]" "replicate 4 x = [x, x, x, x]"
  by (simp_all add: numeral_2_eq_2 numeral_3_eq_3 eval_nat_numeral)

lemma length_zero_fill: "length t \<le> n \<Longrightarrow> length (zero_fill n t) = n"
  by (simp add: zero_fill_def)

lemma startswith_T: "startswith t ''T'' \<longleftrightarrow> t \<noteq> [] \<and> hd t = CHR ''T''"
  by (cases t) (simp_all add: startswith_def)

lemma base_path_ok:
  assumes "config_get cfg ''relative_orbit'' = Some (CfgInt orbit)"
    and "tilecode = (if mgrs (mtl product) \<noteq> [] \<and> hd (mgrs (mtl product)) = CHR ''T''
                     then tl (mgrs (mtl product)) else mgrs (mtl product))"
  shows "base_path env cfg product
           = Inr (''L2F_'' @ tilecode @ ''_'' @ strftime_Ymd (acqdate product) @ ''_''
                    @ sensor_name product @ ''_R'' @ zero_fill 3 (str_int orbit),
                  tilecode)"
  unfolding base_path_def assms(1) format_0gt3_def assms(2)
  by (simp add: Let_def startswith_T drop_Suc)

lemma band_file_eq:
  "band_file outdir band res = outdir @ ''_'' @ band @ ''_'' @ str_int (int_of_float res) @ ''m.TIF''"
  by (simp add: band_file_def)

lemma str_int_30: "str_int (int_of_float 30) = ''30''"
  by (simp add: int_of_float_def str_int_def str_nat_step str_nat_digit digit_char_def)






lemma demo_orbit: "config_get (config demo_state) ''relative_orbit'' = Some (CfgInt 7)"
  by (simp add: config_get_def demo_state_def initial_state_def demo_config_def)

lemma demo_archive: "config_get (config demo_state) ''archive_dir'' = Some (CfgStr ''/archive'')"
  by (simp add: config_get_def demo_state_def initial_state_def demo_config_def)



subsection \<open>Secondary resolution\<close>

lemma band_file_30: "band_file outdir band 30 = outdir @ ''_'' @ band @ ''_30m.TIF''"
  by (simp add: band_file_eq str_int_30)

text \<open>
  Claim C9 (amended). \<open>process\<close> leaves the configuration with the two
  \<open>imageout\<close> entries added, and reads the secondary-resolution flag from it. With the
  flag set, after writing the band: for sensor S2 it resamples the band just written to
  30 m and writes the result in digital counts; for sensor L8 or L9 it writes the
  precomputed 30 m image of the band and removes it from the product when the product
  holds one for the band, and writes nothing more when it holds none; for any other
  sensor it writes nothing more. The secondary file is named like the band file with
  resolution 30. Without the flag only the band is written.
\<close>

theorem secondary_resolution_output:
  assumes "base_path env (config s) product = Inr (outdir, tilecode)"
    and "config_get (config s) ''archive_dir'' = Some (CfgStr a)"
    and "tsdir = path_join a [tilecode]"
    and "newpath = path_join tsdir [outdir, band_file outdir band (xRes img)]"
    and "newpath_30m = path_join tsdir [outdir, outdir @ ''_'' @ band @ ''_30m.TIF'']"
    and "r = packager_process env s product img band"
  shows "config (fst (snd r))
           = config_set (config_set (config s) ''imageout_dir'' (CfgStr (dirname newpath)))
               (''imageout_'' @ band) (CfgStr (basename newpath))
       \<and> (getboolean env (config (fst (snd r))) ''hlsplus'' \<longrightarrow>
            (sensor product = ''S2''
               \<longrightarrow> emitted s (fst (snd r))
                     = [WriteImage newpath False, Resample newpath 30 newpath_30m,
                        WriteImage newpath_30m True]
                 \<and> snd (snd r) = product)
          \<and> ((sensor product = ''L8'' \<or> sensor product = ''L9'')
                \<and> band \<in> set (dict_keys (image30m product))
               \<longrightarrow> emitted s (fst (snd r))
                     = [WriteImage newpath False, WriteImage newpath_30m False]
                 \<and> snd (snd r) = product\<lparr>image30m := dict_del (image30m product) band\<rparr>)
          \<and> ((sensor product = ''L8'' \<or> sensor product = ''L9'')
                \<and> band \<notin> set (dict_keys (image30m product))
               \<longrightarrow> emitted s (fst (snd r)) = [WriteImage newpath False]
                 \<and> snd (snd r) = product)
          \<and> (sensor product \<noteq> ''S2'' \<and> sensor product \<noteq> ''L8'' \<and> sensor product \<noteq> ''L9''
               \<longrightarrow> emitted s (fst (snd r)) = [WriteImage newpath False]
                 \<and> snd (snd r) = product))
       \<and> (\<not> getboolean env (config (fst (snd r))) ''hlsplus''
            \<longrightarrow> emitted s (fst (snd r)) = [WriteImage newpath False] \<and> snd (snd r) = product)"
proof -
  define s3 where "s3 = s\<lparr>effects := effects s @ [WriteImage newpath False],
                 images := dict_set (images s) band newpath,
                 config := config_set
                             (config_set (config s) ''imageout_dir'' (CfgStr (dirname newpath)))
                             (''imageout_'' @ band) (CfgStr (basename newpath))\<rparr>"
  define image1 where
    "image1 = img\<lparr>filepath := newpath, dirpath := dirname newpath, filename := basename newpath\<rparr>"
  define so where "so = secondary_output s3 product band tsdir outdir newpath"
  have u: "r = (if getboolean env (config s3) ''hlsplus'' then (Inr image1, so)
                else (Inr image1, s3, product))"
    unfolding assms(6) so_def assms(3)
    by (rule packager_process_unfold [OF assms(1,2) assms(4) [unfolded assms(3)] image1_def s3_def])
  have c3: "config s3 = config_set (config_set (config s) ''imageout_dir'' (CfgStr (dirname newpath)))
               (''imageout_'' @ band) (CfgStr (basename newpath))"
    and e3: "effects s3 = effects s @ [WriteImage newpath False]"
    by (simp_all add: s3_def)
  have cso: "config (fst so) = config s3"
    unfolding so_def by (rule secondary_output_extends(3))
  have c: "config (fst (snd r)) = config s3"
    unfolding u using cso by simp
  have off: "emitted s (fst (snd r)) = [WriteImage newpath False] \<and> snd (snd r) = product"
    if "\<not> getboolean env (config s3) ''hlsplus''"
    unfolding u using that by (simp add: emitted_def e3)
  have on: "fst (snd r) = fst so \<and> snd (snd r) = snd so" if "getboolean env (config s3) ''hlsplus''"
    unfolding u using that by simp
  have n30: "path_join tsdir [outdir, band_file outdir band 30] = newpath_30m"
    by (simp add: band_file_30 assms(5))
  have S2: "emitted s (fst so)
              = [WriteImage newpath False, Resample newpath 30 newpath_30m, WriteImage newpath_30m True]
            \<and> snd so = product" if "sensor product = ''S2''"
    unfolding so_def secondary_output_S2 [OF that] n30
    by (simp add: emitted_def emit_simps e3)
  have L8: "emitted s (fst so) = [WriteImage newpath False, WriteImage newpath_30m False]
            \<and> snd so = product\<lparr>image30m := dict_del (image30m product) band\<rparr>"
    if l: "sensor product = ''L8'' \<or> sensor product = ''L9''"
      and k: "band \<in> set (dict_keys (image30m product))"
  proof -
    from k have "map_of (image30m product) band \<noteq> None"
      by (simp add: map_of_eq_None_iff dict_keys_def)
    then obtain im where m: "map_of (image30m product) band = Some im"
      by blast
    show ?thesis
      unfolding so_def secondary_output_L8 [OF l m] n30
      by (simp add: emitted_def emit_simps e3)
  qed
  have none: "emitted s (fst so) = [WriteImage newpath False] \<and> snd so = product"
    if "sensor product \<noteq> ''S2''"
      and "\<not> ((sensor product = ''L8'' \<or> sensor product = ''L9'')
             \<and> band \<in> set (dict_keys (image30m product)))"
    unfolding so_def secondary_output_none [OF that]
    by (simp add: emitted_def e3)
  have none1: "emitted s (fst so) = [WriteImage newpath False] \<and> snd so = product"
    if "(sensor product = ''L8'' \<or> sensor product = ''L9'')
          \<and> band \<notin> set (dict_keys (image30m product))"
    using that by (intro none) auto
  have none2: "emitted s (fst so) = [WriteImage newpath False] \<and> snd so = product"
    if "sensor product \<noteq> ''S2'' \<and> sensor product \<noteq> ''L8'' \<and> sensor product \<noteq> ''L9''"
    using that by (intro none) auto
  show ?thesis
    unfolding c using c3 off on S2 L8 none1 none2 by metis
qed

lemma demo_base_path:
  "base_path demo_env (config demo_state) demo_product
     = Inr (''L2F_32TQM_20210504_S2A_R007'', ''32TQM'')"
  using base_path_ok [OF demo_orbit refl, of demo_env demo_product]
  by (simp add: demo_product_def demo_mtl_def strftime_Ymd_def zero_fill_def
      str_int_def str_nat_step str_nat_digit digit_char_def replicate_small)

lemma demo_l8_base_path:
  "base_path demo_env (config demo_state) demo_l8_product
     = Inr (''L2F_32TQM_20210504_LS8_R007'', ''32TQM'')"
  using base_path_ok [OF demo_orbit refl, of demo_env demo_l8_product]
  by (simp add: demo_l8_product_def demo_product_def demo_mtl_def strftime_Ymd_def zero_fill_def
      str_int_def str_nat_step str_nat_digit digit_char_def replicate_small)

lemma demo_hlsplus:
  "getboolean demo_env
     (config_set (config_set (config demo_state) ''imageout_dir'' v) (''imageout_'' @ band) w)
     ''hlsplus''"
  by (simp add: demo_env_def config_set_def demo_state_def initial_state_def demo_config_def)

theorem secondary_resolution_output_witness:
  "emitted demo_state
     (fst (snd (packager_process demo_env demo_state demo_product demo_image ''B04'')))
     = [WriteImage
          ''/archive/32TQM/L2F_32TQM_20210504_S2A_R007/L2F_32TQM_20210504_S2A_R007_B04_10m.TIF''
          False,
        Resample
          ''/archive/32TQM/L2F_32TQM_20210504_S2A_R007/L2F_32TQM_20210504_S2A_R007_B04_10m.TIF'' 30
          ''/archive/32TQM/L2F_32TQM_20210504_S2A_R007/L2F_32TQM_20210504_S2A_R007_B04_30m.TIF'',
        WriteImage
          ''/archive/32TQM/L2F_32TQM_20210504_S2A_R007/L2F_32TQM_20210504_S2A_R007_B04_30m.TIF''
          True]
   \<and> emitted demo_state
       (fst (snd (packager_process demo_env demo_state demo_l8_product demo_image ''B04'')))
     = [WriteImage
          ''/archive/32TQM/L2F_32TQM_20210504_LS8_R007/L2F_32TQM_20210504_LS8_R007_B04_10m.TIF''
          False,
        WriteImage
          ''/archive/32TQM/L2F_32TQM_20210504_LS8_R007/L2F_32TQM_20210504_LS8_R007_B04_30m.TIF''
          False]
   \<and> image30m (snd (snd (packager_process demo_env demo_state demo_l8_product demo_image ''B04'')))
     = []"
proof -
  let ?r = "packager_process demo_env demo_state demo_product demo_image ''B04''"
  let ?q = "packager_process demo_env demo_state demo_l8_product demo_image ''B04''"
  note t1 = secondary_resolution_output [where img = demo_image and band = "''B04''",
      OF demo_base_path demo_archive refl refl refl refl]
  note t2 = secondary_resolution_output [where img = demo_image and band = "''B04''",
      OF demo_l8_base_path demo_archive refl refl refl refl]
  have h1: "getboolean demo_env (config (fst (snd ?r))) ''hlsplus''"
    unfolding t1 [THEN conjunct1] by (rule demo_hlsplus)
  have h2: "getboolean demo_env (config (fst (snd ?q))) ''hlsplus''"
    unfolding t2 [THEN conjunct1] by (rule demo_hlsplus)
  have s1: "sensor demo_product = ''S2''"
    by (simp add: demo_product_def)
  have s2: "(sensor demo_l8_product = ''L8'' \<or> sensor demo_l8_product = ''L9'')
             \<and> ''B04'' \<in> set (dict_keys (image30m demo_l8_product))"
    "dict_del (image30m demo_l8_product) ''B04'' = []"
    by (simp_all add: demo_l8_product_def demo_product_def dict_keys_def dict_del_def)
  have r: "str_int (int_of_float 10) = ''10''"
    by (simp add: int_of_float_def str_int_def str_nat_step str_nat_digit digit_char_def)
  have x: "xRes demo_image = 10"
    by (simp add: demo_image_def)
  from t1 h1 s1 have a: "emitted demo_state (fst (snd ?r))
     = [WriteImage
          ''/archive/32TQM/L2F_32TQM_20210504_S2A_R007/L2F_32TQM_20210504_S2A_R007_B04_10m.TIF''
          False,
        Resample
          ''/archive/32TQM/L2F_32TQM_20210504_S2A_R007/L2F_32TQM_20210504_S2A_R007_B04_10m.TIF'' 30
          ''/archive/32TQM/L2F_32TQM_20210504_S2A_R007/L2F_32TQM_20210504_S2A_R007_B04_30m.TIF'',
        WriteImage
          ''/archive/32TQM/L2F_32TQM_20210504_S2A_R007/L2F_32TQM_20210504_S2A_R007_B04_30m.TIF''
          True]"
    by (simp add: path_join_def band_file_eq r x)
  from t2 h2 s2(1) have b: "emitted demo_state (fst (snd ?q))
     = [WriteImage
          ''/archive/32TQM/L2F_32TQM_20210504_LS8_R007/L2F_32TQM_20210504_LS8_R007_B04_10m.TIF''
          False,
        WriteImage
          ''/archive/32TQM/L2F_32TQM_20210504_LS8_R007/L2F_32TQM_20210504_LS8_R007_B04_30m.TIF''
          False]
     \<and> snd (snd ?q) = demo_l8_product\<lparr>image30m := dict_del (image30m demo_l8_product) ''B04''\<rparr>"
    by (simp add: path_join_def band_file_eq r x)
  show ?thesis using a b by (simp add: s2(2))
qed

theorem secondary_resolution_counterexample:
  "getboolean demo_env
     (config (fst (snd (packager_process demo_env demo_state demo_l8_product demo_image ''B05''))))
     ''hlsplus''
   \<and> sensor demo_l8_product = ''L8''
   \<and> effects (fst (snd (packager_process demo_env demo_state demo_l8_product demo_image ''B05'')))
       = [WriteImage
            ''/archive/32TQM/L2F_32TQM_20210504_LS8_R007/L2F_32TQM_20210504_LS8_R007_B05_10m.TIF''
            False]"
proof -
  have n: "secondary_output s demo_l8_product ''B05'' tsdir outdir newpath = (s, demo_l8_product)"
    for s tsdir outdir newpath
    by (rule secondary_output_none)
      (simp_all add: demo_l8_product_def demo_product_def dict_keys_def)
  have r: "str_int (int_of_float 10) = ''10''"
    by (simp add: int_of_float_def str_int_def str_nat_step str_nat_digit digit_char_def)
  show ?thesis
    unfolding packager_process_unfold [OF demo_l8_base_path demo_archive refl refl refl] n
    by (simp add: demo_env_def demo_state_def initial_state_def demo_config_def config_set_def
        demo_l8_product_def demo_product_def demo_image_def band_file_eq r path_join_def)
qed

subsection \<open>Finalization and quicklooks\<close>

lemma copy_auxiliaries_facts:
  "config (copy_auxiliaries env s product tsdir outdir) = config s"
  "images (copy_auxiliaries env s product tsdir outdir) = images s"
  "\<exists>xs. effects (copy_auxiliaries env s product tsdir outdir) = effects s @ xs
        \<and> filter is_quicklook xs = []"
  by (simp_all add: copy_auxiliaries_def Let_def emit_def split: option.splits)

lemma save_reports_facts:
  "config (save_reports env s product tsdir outdir wd) = config s"
  "images (save_reports env s product tsdir outdir wd) = images s"
  "\<exists>xs. effects (save_reports env s product tsdir outdir wd) = effects s @ xs
        \<and> filter is_quicklook xs = []"
  by (simp_all add: save_reports_def Let_def emit_def)

lemma quicklook_call_ok:
  assumes "py_int env (config_get (config s) ''offset'') = Inr offset"
  shows "quicklook_call env s band_list qlpath =
           (Inr (), emit s (Quicklook band_list qlpath
                              (config_get_default (config s) ''quicklook_jpeg_quality'' (CfgInt 95))
                              offset))"
  using assms by (simp add: quicklook_call_def)

lemma quicklooks_many:
  assumes "py_int env (config_get (config s) ''offset'') = Inr offset"
    and "2 \<le> length (images s)"
    and "quality = config_get_default (config s) ''quicklook_jpeg_quality'' (CfgInt 95)"
  shows "quicklooks env s tsdir outdir =
           (Inr (),
            emit (emit s (Quicklook [''B04'', ''B03'', ''B02'']
                            (path_join tsdir [''QI'', ''QL_B432'', outdir @ ''_QL_B432.jpg''])
                            quality offset))
              (Quicklook [''B12'', ''B11'', ''B8A'']
                 (path_join tsdir [''QI'', ''QL_B12118A'', outdir @ ''_QL_B12118A.jpg''])
                 quality offset))"
proof -
  have l: "length (dict_keys (images s)) > 1"
    using assms(2) by (simp add: dict_keys_def)
  have o: "py_int env (config_get (config (emit s e)) ''offset'') = Inr offset" for e
    using assms(1) by (simp add: emit_simps)
  show ?thesis
    unfolding quicklooks_def using l
    by (simp add: quicklook_call_ok [OF assms(1)] quicklook_call_ok [OF o] emit_simps assms(3))
qed

lemma quicklooks_one:
  assumes "py_int env (config_get (config s) ''offset'') = Inr offset"
    and "images s = [(b, p)]"
    and "quality = config_get_default (config s) ''quicklook_jpeg_quality'' (CfgInt 95)"
  shows "quicklooks env s tsdir outdir =
           (Inr (),
            emit s (Quicklook [b]
                      (path_join tsdir [''QI'', ''QL_'' @ b, outdir @ ''_QL_'' @ b @ ''.jpg''])
                      quality offset))"
  unfolding quicklooks_def
  by (simp add: assms(2,3) dict_keys_def py_index_def quicklook_call_ok [OF assms(1)])

lemma quicklooks_none:
  assumes "images s = []"
  shows "quicklooks env s tsdir outdir = (Inl IndexError, s)"
  unfolding quicklooks_def
  by (simp add: assms dict_keys_def py_index_def)

lemma packager_postprocess_unfold:
  assumes "base_path env (config s) product = Inr (outdir, tilecode)"
    and "config_get (config s) ''archive_dir'' = Some (CfgStr a)"
    and "config_get (config s) ''wd'' = Some (CfgStr wd)"
    and "pre = save_reports env (copy_auxiliaries env s product (path_join a [tilecode]) outdir)
                 product (path_join a [tilecode]) outdir wd"
  shows "packager_postprocess env s product =
           (case quicklooks env pre (path_join a [tilecode]) outdir of
              (Inl e, s8) \<Rightarrow> (Inl e, s8)
            | (Inr u, s8) \<Rightarrow> (Inr (), s8\<lparr>images := []\<rparr>))"
  unfolding packager_postprocess_def assms(1)
  by (simp add: assms(2,3,4) py_path_def Let_def copy_auxiliaries_facts)

lemma pre_quicklook_facts:
  assumes "pre = save_reports env (copy_auxiliaries env s product tsdir outdir)
                   product tsdir outdir wd"
  shows "config pre = config s" "images pre = images s"
    "\<exists>xs. effects pre = effects s @ xs \<and> filter is_quicklook xs = []"
proof -
  show "config pre = config s" "images pre = images s"
    by (simp_all add: assms save_reports_facts copy_auxiliaries_facts)
  obtain xs where x: "effects (copy_auxiliaries env s product tsdir outdir) = effects s @ xs"
    "filter is_quicklook xs = []"
    using copy_auxiliaries_facts(3) by blast
  obtain ys where y: "effects pre = effects (copy_auxiliaries env s product tsdir outdir) @ ys"
    "filter is_quicklook ys = []"
    unfolding assms using save_reports_facts(3) by blast
  have "effects pre = effects s @ (xs @ ys) \<and> filter is_quicklook (xs @ ys) = []"
    using x y by simp
  then show "\<exists>xs. effects pre = effects s @ xs \<and> filter is_quicklook xs = []"
    by blast
qed

text \<open>
  Claim C6. With the configuration that finalization reads in place (relative orbit,
  archive directory, working directory, quicklook offset), \<open>postprocess\<close> completes
  whenever the registry is not empty, and the quicklooks it requests are: for a registry
  with exactly one band, one quicklook of that band alone, under QI/QL\_band; for a
  registry with two or more bands, the B04/B03/B02 composite and then the B12/B11/B8A
  composite, under QI/QL\_B432 and QI/QL\_B12118A; and no other.
\<close>

theorem quicklook_selection:
  assumes "base_path env (config s) product = Inr (outdir, tilecode)"
    and "config_get (config s) ''archive_dir'' = Some (CfgStr a)"
    and "config_get (config s) ''wd'' = Some (CfgStr wd)"
    and "py_int env (config_get (config s) ''offset'') = Inr offset"
    and "quality = config_get_default (config s) ''quicklook_jpeg_quality'' (CfgInt 95)"
    and "tsdir = path_join a [tilecode]"
  shows "(\<forall>b p. images s = [(b, p)]
            \<longrightarrow> fst (packager_postprocess env s product) = Inr ()
              \<and> filter is_quicklook (emitted s (snd (packager_postprocess env s product)))
                  = [Quicklook [b]
                       (path_join tsdir [''QI'', ''QL_'' @ b, outdir @ ''_QL_'' @ b @ ''.jpg''])
                       quality offset])
       \<and> (2 \<le> length (images s)
            \<longrightarrow> fst (packager_postprocess env s product) = Inr ()
              \<and> filter is_quicklook (emitted s (snd (packager_postprocess env s product)))
                  = [Quicklook [''B04'', ''B03'', ''B02'']
                       (path_join tsdir [''QI'', ''QL_B432'', outdir @ ''_QL_B432.jpg''])
                       quality offset,
                     Quicklook [''B12'', ''B11'', ''B8A'']
                       (path_join tsdir [''QI'', ''QL_B12118A'', outdir @ ''_QL_B12118A.jpg''])
                       quality offset])"
proof -
  define pre where "pre = save_reports env (copy_auxiliaries env s product tsdir outdir)
                            product tsdir outdir wd"
  note u = packager_postprocess_unfold [OF assms(1-3) pre_def [unfolded assms(6)],
      folded assms(6)]
  note f = pre_quicklook_facts [OF pre_def]
  obtain xs where xs: "effects pre = effects s @ xs" "filter is_quicklook xs = []"
    using f(3) by blast
  have o: "py_int env (config_get (config pre) ''offset'') = Inr offset"
    using assms(4) by (simp add: f(1))
  have q: "quality = config_get_default (config pre) ''quicklook_jpeg_quality'' (CfgInt 95)"
    using assms(5) by (simp add: f(1))
  have one: "fst (packager_postprocess env s product) = Inr ()
              \<and> filter is_quicklook (emitted s (snd (packager_postprocess env s product)))
                  = [Quicklook [b]
                       (path_join tsdir [''QI'', ''QL_'' @ b, outdir @ ''_QL_'' @ b @ ''.jpg''])
                       quality offset]"
    if "images s = [(b, p)]" for b p
  proof -
    have "images pre = [(b, p)]" using that by (simp add: f(2))
    from quicklooks_one [OF o this q, of tsdir outdir]
    show ?thesis
      unfolding u by (simp add: emit_simps emitted_def xs)
  qed
  have many: "fst (packager_postprocess env s product) = Inr ()
              \<and> filter is_quicklook (emitted s (snd (packager_postprocess env s product)))
                  = [Quicklook [''B04'', ''B03'', ''B02'']
                       (path_join tsdir [''QI'', ''QL_B432'', outdir @ ''_QL_B432.jpg''])
                       quality offset,
                     Quicklook [''B12'', ''B11'', ''B8A'']
                       (path_join tsdir [''QI'', ''QL_B12118A'', outdir @ ''_QL_B12118A.jpg''])
                       quality offset]"
    if "2 \<le> length (images s)"
  proof -
    have "2 \<le> length (images pre)" using that by (simp add: f(2))
    from quicklooks_many [OF o this q, of tsdir outdir]
    show ?thesis
      unfolding u by (simp add: emit_simps emitted_def xs)
  qed
  show ?thesis using one many by blast
qed

text \<open>
  Claim C10. When \<open>postprocess\<close> runs with an empty registry (and the configuration it
  reads before the quicklooks is in place), it takes the single-band branch and raises
  IndexError on \<open>band_list[0]\<close>: no quicklook is requested and the call does not
  complete.
\<close>

theorem finalize_without_bands_fails:
  assumes "base_path env (config s) product = Inr (outdir, tilecode)"
    and "config_get (config s) ''archive_dir'' = Some (CfgStr a)"
    and "config_get (config s) ''wd'' = Some (CfgStr wd)"
    and "images s = []"
  shows "fst (packager_postprocess env s product) = Inl IndexError
       \<and> filter is_quicklook (emitted s (snd (packager_postprocess env s product))) = []
       \<and> images (snd (packager_postprocess env s product)) = []"
proof -
  define pre where "pre = save_reports env (copy_auxiliaries env s product (path_join a [tilecode]) outdir)
                            product (path_join a [tilecode]) outdir wd"
  note u = packager_postprocess_unfold [OF assms(1-3) pre_def]
  note f = pre_quicklook_facts [OF pre_def]
  obtain xs where xs: "effects pre = effects s @ xs" "filter is_quicklook xs = []"
    using f(3) by blast
  have "images pre = []" using assms(4) by (simp add: f(2))
  from quicklooks_none [OF this, of env "path_join a [tilecode]" outdir]
  show ?thesis
    unfolding u by (simp add: emitted_def xs f(2) assms(4))
qed

subsection \<open>The band registry\<close>

lemma packager_postprocess_clears:
  "fst (packager_postprocess env s product) = Inr u
     \<Longrightarrow> images (snd (packager_postprocess env s product)) = []"
  by (auto simp add: packager_postprocess_def Let_def split: sum.splits prod.splits)

lemma package_product_clears:
  "fst (package_product env s pb) = Inr u \<Longrightarrow> images (snd (package_product env s pb)) = []"
  by (auto simp add: package_product_def packager_postprocess_clears split: sum.splits prod.splits)

lemma package_run_clears:
  "images s = [] \<Longrightarrow> fst (package_run env s ps) = Inr u
     \<Longrightarrow> images (snd (package_run env s ps)) = []"
proof (induction ps arbitrary: s)
  case Nil
  then show ?case by simp
next
  case (Cons pb rest)
  show ?case
  proof (cases "package_product env s pb")
    case (Pair r s1)
    show ?thesis
    proof (cases r)
      case (Inl e)
      with Pair Cons.prems show ?thesis by simp
    next
      case (Inr v)
      with Pair have "images s1 = []"
        using package_product_clears [of env s pb v] by simp
      with Cons.IH [of s1] Cons.prems Pair Inr show ?thesis by simp
    qed
  qed
qed

lemma package_run_append:
  "fst (package_run env s ps) = Inr u
     \<Longrightarrow> package_run env s (ps @ qs) = package_run env (snd (package_run env s ps)) qs"
proof (induction ps arbitrary: s)
  case Nil
  then show ?case by simp
next
  case (Cons pb rest)
  show ?case
  proof (cases "package_product env s pb")
    case (Pair r s1)
    show ?thesis
    proof (cases r)
      case (Inl e)
      with Pair Cons.prems show ?thesis by simp
    next
      case (Inr v)
      with Cons.IH [of s1] Cons.prems Pair show ?thesis by simp
    qed
  qed
qed

subsection \<open>Completion of a run\<close>

lemma packager_postprocess_completes:
  assumes "base_path env (config s) product = Inr (outdir, tilecode)"
    and "config_get (config s) ''archive_dir'' = Some (CfgStr a)"
    and "config_get (config s) ''wd'' = Some (CfgStr wd)"
    and "py_int env (config_get (config s) ''offset'') = Inr offset"
    and "images s \<noteq> []"
  shows "fst (packager_postprocess env s product) = Inr ()"
proof -
  define pre where "pre = save_reports env (copy_auxiliaries env s product (path_join a [tilecode]) outdir)
                            product (path_join a [tilecode]) outdir wd"
  note u = packager_postprocess_unfold [OF assms(1-3) pre_def]
  note f = pre_quicklook_facts [OF pre_def]
  have o: "py_int env (config_get (config pre) ''offset'') = Inr offset"
    using assms(4) by (simp add: f(1))
  consider (one) b p where "images s = [(b, p)]" | (many) "2 \<le> length (images s)"
    using assms(5) by (cases "images s"; cases "tl (images s)") auto
  then show ?thesis
  proof cases
    case one
    then have "images pre = [(b, p)]" by (simp add: f(2))
    from quicklooks_one [OF o this refl, of "path_join a [tilecode]" outdir]
    show ?thesis unfolding u by simp
  next
    case many
    then have "2 \<le> length (images pre)" by (simp add: f(2))
    from quicklooks_many [OF o this refl, of "path_join a [tilecode]" outdir]
    show ?thesis unfolding u by simp
  qed
qed

lemma dict_set_nonempty: "dict_set d k v \<noteq> []"
  by (cases d) (auto split: if_splits)

lemma secondary_output_product:
  "mtl (snd (secondary_output s product band tsdir outdir newpath)) = mtl product"
  "acqdate (snd (secondary_output s product band tsdir outdir newpath)) = acqdate product"
  "sensor_name (snd (secondary_output s product band tsdir outdir newpath)) = sensor_name product"
  by (simp_all add: secondary_output_def Let_def split: option.splits)

lemma packager_process_step:
  assumes "base_path env (config s) product = Inr (outdir, tilecode)"
    and "config_get (config s) ''archive_dir'' = Some (CfgStr a)"
    and "s1 = fst (snd (packager_process env s product img band))"
    and "p1 = snd (snd (packager_process env s product img band))"
  shows "\<exists>im. fst (packager_process env s product img band) = Inr im"
    "images s1 \<noteq> []"
    "mtl p1 = mtl product \<and> acqdate p1 = acqdate product \<and> sensor_name p1 = sensor_name product"
    "\<exists>v w. config s1 = config_set (config_set (config s) ''imageout_dir'' v) (''imageout_'' @ band) w"
proof -
  note u = packager_process_unfold [OF assms(1,2) refl refl refl]
  show "\<exists>im. fst (packager_process env s product img band) = Inr im"
    unfolding u by simp
  show "images s1 \<noteq> []"
    unfolding assms(3) packager_process_ok(2) [OF assms(1,2) refl] by (rule dict_set_nonempty)
  show "mtl p1 = mtl product \<and> acqdate p1 = acqdate product \<and> sensor_name p1 = sensor_name product"
    unfolding assms(4) u by (simp add: secondary_output_product)
  show "\<exists>v w. config s1 = config_set (config_set (config s) ''imageout_dir'' v) (''imageout_'' @ band) w"
    unfolding assms(3) u by (auto simp add: secondary_output_extends(3))
qed

lemma package_bands_completes:
  assumes "config_get (config s) ''relative_orbit'' = Some (CfgInt orbit)"
    and "config_get (config s) ''archive_dir'' = Some (CfgStr a)"
    and "config_get (config s) ''wd'' = Some (CfgStr wd)"
    and "config_get (config s) ''offset'' = off"
    and "r = package_bands env s product bands"
  shows "fst r = Inr ()
       \<and> config_get (config (fst (snd r))) ''relative_orbit'' = Some (CfgInt orbit)
       \<and> config_get (config (fst (snd r))) ''archive_dir'' = Some (CfgStr a)
       \<and> config_get (config (fst (snd r))) ''wd'' = Some (CfgStr wd)
       \<and> config_get (config (fst (snd r))) ''offset'' = off
       \<and> (bands \<noteq> [] \<or> images s \<noteq> [] \<longrightarrow> images (fst (snd r)) \<noteq> [])
       \<and> mtl (snd (snd r)) = mtl product \<and> acqdate (snd (snd r)) = acqdate product
       \<and> sensor_name (snd (snd r)) = sensor_name product"
  using assms
proof (induction bands arbitrary: s product r)
  case Nil
  then show ?case by simp
next
  case (Cons ib rest)
  obtain img band where ib: "ib = (img, band)" by (cases ib)
  define s1 where "s1 = fst (snd (packager_process env s product img band))"
  define p1 where "p1 = snd (snd (packager_process env s product img band))"
  obtain outdir tilecode where b: "base_path env (config s) product = Inr (outdir, tilecode)"
    using base_path_ok [OF Cons.prems(1) refl] by blast
  note st = packager_process_step [OF b Cons.prems(2) s1_def p1_def]
  obtain im where im: "packager_process env s product img band = (Inr im, s1, p1)"
    using st(1) by (auto simp add: s1_def p1_def prod_eq_iff)
  obtain v w where c: "config s1
      = config_set (config_set (config s) ''imageout_dir'' v) (''imageout_'' @ band) w"
    using st(4) by blast
  have k: "config_get (config s1) ''relative_orbit'' = Some (CfgInt orbit)"
    "config_get (config s1) ''archive_dir'' = Some (CfgStr a)"
    "config_get (config s1) ''wd'' = Some (CfgStr wd)"
    "config_get (config s1) ''offset'' = off"
    unfolding c using Cons.prems(1-4) by (simp_all add: config_get_def config_set_def)
  have r: "r = package_bands env s1 p1 rest"
    using Cons.prems(5) by (simp add: ib im)
  from Cons.IH [OF k r] st(2,3) show ?case by simp
qed

lemma package_product_completes:
  assumes "config_get (config s) ''relative_orbit'' = Some (CfgInt orbit)"
    and "config_get (config s) ''archive_dir'' = Some (CfgStr a)"
    and "config_get (config s) ''wd'' = Some (CfgStr wd)"
    and "py_int env (config_get (config s) ''offset'') = Inr offset"
    and "bands \<noteq> []"
  shows "fst (package_product env s (product, bands)) = Inr ()"
proof -
  define r where "r = package_bands env s product bands"
  note c = package_bands_completes [OF assms(1-3) refl r_def]
  obtain outdir tilecode where
    b: "base_path env (config (fst (snd r))) (snd (snd r)) = Inr (outdir, tilecode)"
    using base_path_ok [OF c [THEN conjunct2, THEN conjunct1] refl] by blast
  have o: "py_int env (config_get (config (fst (snd r))) ''offset'') = Inr offset"
    using c assms(4) by simp
  have i: "images (fst (snd r)) \<noteq> []"
    using c assms(5) by simp
  have "fst (packager_postprocess env (fst (snd r)) (snd (snd r))) = Inr ()"
    using packager_postprocess_completes [OF b _ _ o i] c by blast
  moreover have "package_product env s (product, bands)
                   = packager_postprocess env (fst (snd r)) (snd (snd r))"
    using c by (cases r) (auto simp add: package_product_def r_def [symmetric])
  ultimately show ?thesis by simp
qed

lemma quicklook_call_config: "config (snd (quicklook_call env s band_list qlpath)) = config s"
  by (simp add: quicklook_call_def emit_simps split: sum.splits)

lemma quicklooks_config: "config (snd (quicklooks env s tsdir outdir)) = config s"
proof (cases "length (dict_keys (images s)) > 1")
  case True
  show ?thesis
  proof (cases "quicklook_call env s [''B04'', ''B03'', ''B02'']
                (path_join tsdir
                   [''QI'', ''QL_B432'', str_join ''_'' [outdir, ''QL'', ''B432''] @ ''.jpg''])")
    case (Pair r s1)
    then have "config s1 = config s"
      using quicklook_call_config [of env s "[''B04'', ''B03'', ''B02'']"] by (metis snd_conv)
    with Pair True show ?thesis
      by (cases r) (simp_all add: quicklooks_def quicklook_call_config)
  qed
next
  case False
  then show ?thesis
    by (simp add: quicklooks_def Let_def quicklook_call_config split: sum.splits)
qed

lemma packager_postprocess_config:
  "config (snd (packager_postprocess env s product)) = config s"
proof (cases "base_path env (config s) product")
  case (Inl e)
  then show ?thesis by (simp add: packager_postprocess_def)
next
  case (Inr ot)
  obtain outdir tilecode where ot: "ot = (outdir, tilecode)" by (cases ot)
  show ?thesis
  proof (cases "py_path (config_get (config s) ''archive_dir'')")
    case (Inl e)
    with Inr ot show ?thesis by (simp add: packager_postprocess_def)
  next
    case a: (Inr archive_dir)
    let ?s5 = "copy_auxiliaries env s product (path_join archive_dir [tilecode]) outdir"
    show ?thesis
    proof (cases "py_path (config_get (config s) ''wd'')")
      case (Inl e)
      with Inr ot a show ?thesis
        by (simp add: packager_postprocess_def Let_def copy_auxiliaries_facts)
    next
      case w: (Inr wd)
      let ?pre = "save_reports env ?s5 product (path_join archive_dir [tilecode]) outdir wd"
      have c: "config ?pre = config s"
        by (simp add: save_reports_facts copy_auxiliaries_facts)
      obtain r s8 where q: "quicklooks env ?pre (path_join archive_dir [tilecode]) outdir = (r, s8)"
        by (cases "quicklooks env ?pre (path_join archive_dir [tilecode]) outdir")
      then have "config s8 = config s"
        using quicklooks_config [of env ?pre "path_join archive_dir [tilecode]" outdir] c by simp
      with Inr ot a w q show ?thesis
        by (cases r) (simp_all add: packager_postprocess_def Let_def copy_auxiliaries_facts)
    qed
  qed
qed

lemma package_run_completes:
  assumes "config_get (config s) ''relative_orbit'' = Some (CfgInt orbit)"
    and "config_get (config s) ''archive_dir'' = Some (CfgStr a)"
    and "config_get (config s) ''wd'' = Some (CfgStr wd)"
    and "py_int env (config_get (config s) ''offset'') = Inr offset"
    and "\<forall>pb \<in> set ps. snd pb \<noteq> []"
  shows "fst (package_run env s ps) = Inr ()"
  using assms
proof (induction ps arbitrary: s)
  case Nil
  then show ?case by simp
next
  case (Cons pb rest)
  obtain product bands where pb: "pb = (product, bands)" by (cases pb)
  have ne: "bands \<noteq> []" using Cons.prems(5) pb by simp
  define r where "r = package_bands env s product bands"
  note c = package_bands_completes [OF Cons.prems(1-3) refl r_def]
  have pp: "package_product env s pb = packager_postprocess env (fst (snd r)) (snd (snd r))"
    using c by (cases r) (auto simp add: package_product_def pb r_def [symmetric])
  have f: "fst (package_product env s pb) = Inr ()"
    unfolding pb by (rule package_product_completes [OF Cons.prems(1-4) ne])
  define s1 where "s1 = snd (package_product env s pb)"
  have cs: "config s1 = config (fst (snd r))"
    unfolding s1_def pp by (rule packager_postprocess_config)
  have k: "config_get (config s1) ''relative_orbit'' = Some (CfgInt orbit)"
    "config_get (config s1) ''archive_dir'' = Some (CfgStr a)"
    "config_get (config s1) ''wd'' = Some (CfgStr wd)"
    "py_int env (config_get (config s1) ''offset'') = Inr offset"
    unfolding cs using c Cons.prems(4) by simp_all
  have "\<forall>pb \<in> set rest. snd pb \<noteq> []" using Cons.prems(5) by simp
  from Cons.IH [OF k this] have "fst (package_run env s1 rest) = Inr ()" .
  moreover have "package_run env s (pb # rest) = package_run env s1 rest"
    using f by (cases "package_product env s pb") (simp add: s1_def)
  ultimately show ?case by simp
qed

text \<open>The keys of the registry are the bands that were packaged, each once.\<close>

lemma dict_keys_dict_set:
  "set (dict_keys (dict_set d k v)) = insert k (set (dict_keys d))"
  unfolding dict_keys_def
  by (induction d k v rule: dict_set.induct) (simp_all add: insert_commute)

lemma distinct_dict_set:
  "distinct (dict_keys d) \<Longrightarrow> distinct (dict_keys (dict_set d k v))"
proof (induction d k v rule: dict_set.induct)
  case (1 k v)
  then show ?case by (simp add: dict_keys_def)
next
  case (2 k' v' rest k v)
  show ?case
  proof (cases "k' = k")
    case True
    with 2(2) show ?thesis by (simp add: dict_keys_def)
  next
    case False
    have "k' \<notin> set (dict_keys (dict_set rest k v))"
      using 2(2) False by (simp add: dict_keys_dict_set) (simp add: dict_keys_def)
    moreover have "distinct (dict_keys (dict_set rest k v))"
      using 2(1) [OF False] 2(2) by (simp add: dict_keys_def)
    ultimately show ?thesis
      using False by (simp add: dict_keys_def)
  qed
qed

lemma package_bands_registry:
  assumes "config_get (config s) ''relative_orbit'' = Some (CfgInt orbit)"
    and "config_get (config s) ''archive_dir'' = Some (CfgStr a)"
    and "r = package_bands env s product bands"
  shows "set (dict_keys (images (fst (snd r)))) = set (dict_keys (images s)) \<union> snd ` set bands
       \<and> (distinct (dict_keys (images s)) \<longrightarrow> distinct (dict_keys (images (fst (snd r)))))"
  using assms
proof (induction bands arbitrary: s product r)
  case Nil
  then show ?case by simp
next
  case (Cons ib rest)
  obtain img band where ib: "ib = (img, band)" by (cases ib)
  define s1 where "s1 = fst (snd (packager_process env s product img band))"
  define p1 where "p1 = snd (snd (packager_process env s product img band))"
  obtain outdir tilecode where b: "base_path env (config s) product = Inr (outdir, tilecode)"
    using base_path_ok [OF Cons.prems(1) refl] by blast
  note st = packager_process_step [OF b Cons.prems(2) s1_def p1_def]
  obtain im where im: "packager_process env s product img band = (Inr im, s1, p1)"
    using st(1) by (auto simp add: s1_def p1_def prod_eq_iff)
  obtain v w where c: "config s1
      = config_set (config_set (config s) ''imageout_dir'' v) (''imageout_'' @ band) w"
    using st(4) by blast
  have k: "config_get (config s1) ''relative_orbit'' = Some (CfgInt orbit)"
    "config_get (config s1) ''archive_dir'' = Some (CfgStr a)"
    unfolding c using Cons.prems(1,2) by (simp_all add: config_get_def config_set_def)
  obtain newpath where i: "images s1 = dict_set (images s) band newpath"
    unfolding s1_def using packager_process_ok(2) [OF b Cons.prems(2) refl] by blast
  have r: "r = package_bands env s1 p1 rest"
    using Cons.prems(3) by (simp add: ib im)
  from Cons.IH [OF k r] show ?case
    unfolding i ib by (auto simp add: dict_keys_dict_set distinct_dict_set)
qed

subsection \<open>The concrete scene, packaged\<close>

lemma demo_wd: "config_get (config demo_state) ''wd'' = Some (CfgStr ''/wd'')"
  by (simp add: config_get_def demo_state_def initial_state_def demo_config_def)

lemma demo_offset: "py_int demo_env (config_get (config demo_state) ''offset'') = Inr 0"
  by (simp add: py_int_def config_get_def demo_state_def initial_state_def demo_config_def
      demo_env_def)

lemma demo_quality:
  "config_get_default (config demo_state) ''quicklook_jpeg_quality'' (CfgInt 95) = CfgInt 95"
  by (simp add: config_get_default_def demo_state_def initial_state_def demo_config_def)

theorem quicklook_selection_witness:
  "fst (packager_postprocess demo_env
          (demo_state\<lparr>images := [(''B04'', ''/archive/32TQM/B04.TIF'')]\<rparr>) demo_product) = Inr ()
   \<and> filter is_quicklook
       (emitted (demo_state\<lparr>images := [(''B04'', ''/archive/32TQM/B04.TIF'')]\<rparr>)
          (snd (packager_postprocess demo_env
                  (demo_state\<lparr>images := [(''B04'', ''/archive/32TQM/B04.TIF'')]\<rparr>) demo_product)))
       = [Quicklook [''B04'']
            ''/archive/32TQM/QI/QL_B04/L2F_32TQM_20210504_S2A_R007_QL_B04.jpg'' (CfgInt 95) 0]
   \<and> filter is_quicklook
       (emitted (demo_state\<lparr>images := [(''B04'', ''/archive/32TQM/B04.TIF''),
                                       (''B8A'', ''/archive/32TQM/B8A.TIF'')]\<rparr>)
          (snd (packager_postprocess demo_env
                  (demo_state\<lparr>images := [(''B04'', ''/archive/32TQM/B04.TIF''),
                                          (''B8A'', ''/archive/32TQM/B8A.TIF'')]\<rparr>) demo_product)))
       = [Quicklook [''B04'', ''B03'', ''B02'']
            ''/archive/32TQM/QI/QL_B432/L2F_32TQM_20210504_S2A_R007_QL_B432.jpg'' (CfgInt 95) 0,
          Quicklook [''B12'', ''B11'', ''B8A'']
            ''/archive/32TQM/QI/QL_B12118A/L2F_32TQM_20210504_S2A_R007_QL_B12118A.jpg''
            (CfgInt 95) 0]"
proof -
  let ?s1 = "demo_state\<lparr>images := [(''B04'', ''/archive/32TQM/B04.TIF'')]\<rparr>"
  let ?s2 = "demo_state\<lparr>images := [(''B04'', ''/archive/32TQM/B04.TIF''),
                                    (''B8A'', ''/archive/32TQM/B8A.TIF'')]\<rparr>"
  have h1: "base_path demo_env (config ?s1) demo_product
              = Inr (''L2F_32TQM_20210504_S2A_R007'', ''32TQM'')"
    "config_get (config ?s1) ''archive_dir'' = Some (CfgStr ''/archive'')"
    "config_get (config ?s1) ''wd'' = Some (CfgStr ''/wd'')"
    "py_int demo_env (config_get (config ?s1) ''offset'') = Inr 0"
    "CfgInt 95 = config_get_default (config ?s1) ''quicklook_jpeg_quality'' (CfgInt 95)"
    using demo_base_path demo_archive demo_wd demo_offset demo_quality by simp_all
  have h2: "base_path demo_env (config ?s2) demo_product
              = Inr (''L2F_32TQM_20210504_S2A_R007'', ''32TQM'')"
    "config_get (config ?s2) ''archive_dir'' = Some (CfgStr ''/archive'')"
    "config_get (config ?s2) ''wd'' = Some (CfgStr ''/wd'')"
    "py_int demo_env (config_get (config ?s2) ''offset'') = Inr 0"
    "CfgInt 95 = config_get_default (config ?s2) ''quicklook_jpeg_quality'' (CfgInt 95)"
    using demo_base_path demo_archive demo_wd demo_offset demo_quality by simp_all
  have t: "''/archive/32TQM'' = path_join ''/archive'' [''32TQM'']"
    by (simp add: path_join_def)
  have i: "images ?s1 = [(''B04'', ''/archive/32TQM/B04.TIF'')]" "2 \<le> length (images ?s2)"
    by simp_all
  from quicklook_selection [OF h1 t] i(1) quicklook_selection [OF h2 t] i(2)
  show ?thesis by (simp add: path_join_def)
qed

lemma demo_images: "images demo_state = []"
  by (simp add: demo_state_def initial_state_def)

theorem finalize_without_bands_fails_witness:
  "fst (packager_postprocess demo_env demo_state demo_product) = Inl IndexError
   \<and> filter is_quicklook
       (emitted demo_state (snd (packager_postprocess demo_env demo_state demo_product))) = []"
  using finalize_without_bands_fails [OF demo_base_path demo_archive demo_wd demo_images]
  by simp

text \<open>
  Claim C7. The registry is empty in the initial state (the class attribute); it is
  empty after every \<open>postprocess\<close> that completes, hence after every product that is
  packaged to completion; in a run over a list of products from the initial state, when
  the products packaged so far have completed, the registry is empty in the state in
  which the next product starts; and such a run does complete when the configuration
  read by the packager is in place and every product has at least one band.
\<close>

theorem registry_empty_between_products:
  "images (initial_state cfg) = []
   \<and> (fst (packager_postprocess env s product) = Inr ()
        \<longrightarrow> images (snd (packager_postprocess env s product)) = [])
   \<and> (fst (package_product env s pb) = Inr ()
        \<longrightarrow> images (snd (package_product env s pb)) = [])
   \<and> (fst (package_run env (initial_state cfg) ps) = Inr ()
        \<longrightarrow> images (snd (package_run env (initial_state cfg) ps)) = []
          \<and> package_run env (initial_state cfg) (ps @ [q])
              = package_run env (snd (package_run env (initial_state cfg) ps)) [q])
   \<and> (config_get cfg ''relative_orbit'' = Some (CfgInt orbit)
        \<and> config_get cfg ''archive_dir'' = Some (CfgStr a)
        \<and> config_get cfg ''wd'' = Some (CfgStr wd)
        \<and> py_int env (config_get cfg ''offset'') = Inr offset
        \<and> (\<forall>pb \<in> set ps. snd pb \<noteq> [])
        \<longrightarrow> fst (package_run env (initial_state cfg) ps) = Inr ())"
proof -
  have i: "images (initial_state cfg) = []"
    by (simp add: initial_state_def)
  have c: "config (initial_state cfg) = cfg"
    by (simp add: initial_state_def)
  show ?thesis
    using i packager_postprocess_clears [of env s product "()"]
      package_product_clears [of env s pb "()"]
      package_run_clears [OF i, of env ps "()"]
      package_run_append [of env "initial_state cfg" ps "()" "[q]"]
      package_run_completes [of "initial_state cfg" orbit a wd env offset ps, unfolded c]
    by blast
qed

theorem registry_empty_between_products_witness:
  "fst (package_run demo_env (initial_state demo_config)
          [(demo_product, [(demo_image, ''B04'')]),
           (demo_l8_product, [(demo_image, ''B04''), (demo_image, ''B05'')])]) = Inr ()
   \<and> images (snd (package_run demo_env (initial_state demo_config)
          [(demo_product, [(demo_image, ''B04'')]),
           (demo_l8_product, [(demo_image, ''B04''), (demo_image, ''B05'')])])) = []"
proof -
  let ?ps = "[(demo_product, [(demo_image, ''B04'')]),
              (demo_l8_product, [(demo_image, ''B04''), (demo_image, ''B05'')])]"
  have h: "config_get demo_config ''relative_orbit'' = Some (CfgInt 7)"
    "config_get demo_config ''archive_dir'' = Some (CfgStr ''/archive'')"
    "config_get demo_config ''wd'' = Some (CfgStr ''/wd'')"
    "py_int demo_env (config_get demo_config ''offset'') = Inr 0"
    by (simp_all add: config_get_def demo_config_def py_int_def demo_env_def)
  have b: "\<forall>pb \<in> set ?ps. snd pb \<noteq> []"
    by simp
  from registry_empty_between_products [of demo_config demo_env _ _ _ ?ps _ 7 "''/archive''"
      "''/wd''" 0] h b
  show ?thesis by blast
qed

end
